theory Spec2Isabelle
  imports Complex_Main "HOL-Library.Char_ord" "HOL-Library.List_Lexorder" "HOL-Library.Log_Nat"
begin

section \<open>Python values\<close>

text \<open>
  The program is Python. A \<open>str\<close> is modelled by \<^typ>\<open>string\<close>, one \<^typ>\<open>char\<close> per code
  point, which covers the code points below 256. An exception is a value; the two
  constructors separate the instances of \<open>Exception\<close>, which \<open>except Exception\<close> catches,
  from the other instances of \<open>BaseException\<close> (\<open>KeyboardInterrupt\<close>, \<open>SystemExit\<close>), which
  it lets through. The string is the name of the exception class.
\<close>

datatype pyexc = PyException string | PyBaseException string

fun is_Exception :: "pyexc \<Rightarrow> bool" where
  "is_Exception (PyException _) = True"
| "is_Exception (PyBaseException _) = False"

text \<open>
  A \<open>float\<close> is an IEEE double: \<open>Finite q\<close> is the finite double whose exact value is the
  rational \<open>q\<close> (the two zeros are not told apart).
\<close>

datatype pyfloat = Finite rat | PosInf | NegInf | NaN

text \<open>
  The dynamically typed values that a YAML file and a transcription result are made of.
  A \<open>dict\<close> is an association list, looked up with \<^const>\<open>map_of\<close>; only its \<open>str\<close> keys are
  kept, since every key the program looks up is a \<open>str\<close>.
\<close>

datatype pyval =
    VNone
  | VBool bool
  | VInt int
  | VFloat pyfloat
  | VStr string
  | VList "pyval list"
  | VDict "(string \<times> pyval) list"

fun isinstance_dict :: "pyval \<Rightarrow> bool" where
  "isinstance_dict (VDict _) = True"
| "isinstance_dict _ = False"

text \<open>
  \<open>value.get(key)\<close> and \<open>value.get(key, default)\<close>: the method of \<open>dict\<close>. On a value of another
  type the attribute lookup raises \<open>AttributeError\<close>.
\<close>

fun dict_get :: "pyval \<Rightarrow> string \<Rightarrow> pyval \<Rightarrow> pyexc + pyval" where
  "dict_get (VDict kvs) key dflt =
     Inr (case map_of kvs key of None \<Rightarrow> dflt | Some v \<Rightarrow> v)"
| "dict_get _ key dflt = Inl (PyException ''AttributeError'')"

text \<open>\<open>s.split(sep)\<close> for a separator of one character: the empty pieces are kept.\<close>

fun split_on :: "char \<Rightarrow> string \<Rightarrow> string list" where
  "split_on sep [] = [[]]"
| "split_on sep (c # cs) =
     (if c = sep then [] # split_on sep cs
      else (case split_on sep cs of
              [] \<Rightarrow> [[c]]
            | w # ws \<Rightarrow> (c # w) # ws))"

text \<open>
  \<open>s.lower()\<close> and \<open>s.strip()\<close>, for the code points below 256: the upper-case letters are
  A to Z and U+00C0 to U+00DE without the multiplication sign U+00D7, each 32 below its
  lower-case letter; the white space is U+0009 to U+000D, U+001C to U+0020, U+0085 and
  U+00A0.
\<close>

definition char_lower :: "char \<Rightarrow> char" where
  "char_lower c =
     (let n = (of_char c :: nat)
      in if (65 \<le> n \<and> n \<le> 90) \<or> (192 \<le> n \<and> n \<le> 222 \<and> n \<noteq> 215)
         then char_of (n + 32) else c)"

definition lower :: "string \<Rightarrow> string" where
  "lower s = map char_lower s"

definition isspace :: "char \<Rightarrow> bool" where
  "isspace c =
     (let n = (of_char c :: nat)
      in (9 \<le> n \<and> n \<le> 13) \<or> (28 \<le> n \<and> n \<le> 32) \<or> n = 133 \<or> n = 160)"

definition strip :: "string \<Rightarrow> string" where
  "strip s = rev (dropWhile isspace (rev (dropWhile isspace s)))"

text \<open>\<open>' '.join(parts)\<close>.\<close>

fun join_space :: "string list \<Rightarrow> string" where
  "join_space [] = []"
| "join_space [p] = p"
| "join_space (p # q # ps) = p @ '' '' @ join_space (q # ps)"

text \<open>\<open>s.endswith(suffix)\<close> and \<open>sub in s\<close> on strings.\<close>

definition endswith :: "string \<Rightarrow> string \<Rightarrow> bool" where
  "endswith s suffix =
     (length suffix \<le> length s \<and> drop (length s - length suffix) s = suffix)"

fun str_contains :: "string \<Rightarrow> string \<Rightarrow> bool" where
  "str_contains [] sub = (sub = [])"
| "str_contains (c # cs) sub = (take (length sub) (c # cs) = sub \<or> str_contains cs sub)"

text \<open>\<open>key in value\<close> and \<open>value[key]\<close> for a \<open>str\<close> key, and iteration over a value.\<close>

fun py_in :: "string \<Rightarrow> pyval \<Rightarrow> pyexc + bool" where
  "py_in key (VDict kvs) = Inr (map_of kvs key \<noteq> None)"
| "py_in key (VStr s) = Inr (str_contains s key)"
| "py_in key (VList xs) = Inr (VStr key \<in> set xs)"
| "py_in key _ = Inl (PyException ''TypeError'')"

fun py_getitem :: "pyval \<Rightarrow> string \<Rightarrow> pyexc + pyval" where
  "py_getitem (VDict kvs) key =
     (case map_of kvs key of None \<Rightarrow> Inl (PyException ''KeyError'') | Some v \<Rightarrow> Inr v)"
| "py_getitem _ key = Inl (PyException ''TypeError'')"

fun py_iter :: "pyval \<Rightarrow> pyexc + pyval list" where
  "py_iter (VList xs) = Inr xs"
| "py_iter (VStr s) = Inr (map (\<lambda>c. VStr [c]) s)"
| "py_iter (VDict kvs) = Inr (map (\<lambda>kv. VStr (fst kv)) kvs)"
| "py_iter _ = Inl (PyException ''TypeError'')"

text \<open>Truth value of a value, as \<open>if value:\<close> tests it. A NaN and the infinities are true.\<close>

fun truthy :: "pyval \<Rightarrow> bool" where
  "truthy VNone = False"
| "truthy (VBool b) = b"
| "truthy (VInt i) = (i \<noteq> 0)"
| "truthy (VFloat (Finite q)) = (q \<noteq> 0)"
| "truthy (VFloat _) = True"
| "truthy (VStr s) = (s \<noteq> [])"
| "truthy (VList xs) = (xs \<noteq> [])"
| "truthy (VDict kvs) = (kvs \<noteq> [])"

section \<open>Configuration accessor (config_loader.py)\<close>

text \<open>
  \<open>Config.get\<close>: the loop over the keys of the dotted path. \<open>value\<close> starts as the loaded
  tree \<open>self._config\<close>, which is whatever \<open>yaml.safe_load\<close> returned.
\<close>

fun get_loop :: "pyval \<Rightarrow> string list \<Rightarrow> pyval \<Rightarrow> pyexc + pyval" where
  "get_loop val [] dflt = Inr val"
| "get_loop val (key # keys) dflt =
     (if isinstance_dict val then
        (case dict_get val key VNone of
           Inl e \<Rightarrow> Inl e
         | Inr v \<Rightarrow> if v = VNone then Inr dflt else get_loop v keys dflt)
      else Inr dflt)"

definition Config_get :: "pyval \<Rightarrow> string \<Rightarrow> pyval \<Rightarrow> pyexc + pyval" where
  "Config_get config key_path dflt = get_loop config (split_on CHR ''.'' key_path) dflt"

text \<open>
  The specification's reading of a key path: the value reached by walking nested mappings
  along the keys, \<open>None\<close> as soon as a key is missing or the value to descend into is not a
  mapping.
\<close>

fun walk_path :: "pyval \<Rightarrow> string list \<Rightarrow> pyval option" where
  "walk_path val [] = Some val"
| "walk_path (VDict kvs) (key # keys) =
     (case map_of kvs key of None \<Rightarrow> None | Some v \<Rightarrow> walk_path v keys)"
| "walk_path _ (key # keys) = None"

section \<open>Numbers\<close>

text \<open>
  Rounding of a rational to the nearest double, ties to even: 53 significant bits, the
  exponent of the last bit not below \<open>-1074\<close>. \<open>binade q\<close> is the \<open>e\<close> with
  \<open>2^e \<le> |q| < 2^(e+1)\<close>. Overflow to an infinity is not modelled: the time conversions
  below never produce a magnitude above that of their argument or above 3600.
\<close>

definition pow2 :: "int \<Rightarrow> rat" where
  "pow2 e = (if 0 \<le> e then 2 ^ nat e else 1 / 2 ^ nat (- e))"

definition binade :: "rat \<Rightarrow> int" where
  "binade q =
     (let (a, b) = quotient_of \<bar>q\<bar>; e0 = bitlen a - bitlen b
      in if pow2 e0 \<le> \<bar>q\<bar> then e0 else e0 - 1)"

definition round_half_even :: "rat \<Rightarrow> int" where
  "round_half_even q =
     (let f = \<lfloor>q\<rfloor>; r = q - of_int f
      in if r < 1 / 2 then f
         else if 1 / 2 < r then f + 1
         else if even f then f else f + 1)"

definition fl_round :: "rat \<Rightarrow> rat" where
  "fl_round q =
     (if q = 0 then 0
      else let k = max (binade q - 52) (- 1074)
           in of_int (round_half_even (q / pow2 k)) * pow2 k)"

text \<open>
  C's \<open>fmod\<close> (exact, with the sign of the dividend) and CPython's \<open>_float_div_mod\<close> on
  finite doubles with a non-zero divisor: the remainder takes the sign of the divisor,
  the quotient \<open>(vx - mod) / wx\<close> is computed in doubles and snapped to the nearest
  integral value.
\<close>

definition trunc :: "rat \<Rightarrow> int" where
  "trunc q = (if 0 \<le> q then \<lfloor>q\<rfloor> else \<lceil>q\<rceil>)"

definition c_fmod :: "rat \<Rightarrow> rat \<Rightarrow> rat" where
  "c_fmod x y = x - of_int (trunc (x / y)) * y"

definition float_div_mod :: "rat \<Rightarrow> rat \<Rightarrow> rat \<times> rat" where
  "float_div_mod vx wx =
     (let mod0 = c_fmod vx wx;
          div0 = fl_round (fl_round (vx - mod0) / wx);
          adjust = (mod0 \<noteq> 0 \<and> ((wx < 0) \<noteq> (mod0 < 0)));
          md = (if adjust then fl_round (mod0 + wx) else mod0);
          dv = (if adjust then fl_round (div0 - 1) else div0);
          floordiv =
            (if dv \<noteq> 0 then
               (let fd = of_int \<lfloor>dv\<rfloor>
                in if 1 / 2 < fl_round (dv - fd) then fl_round (fd + 1) else fd)
             else 0)
      in (floordiv, md))"

text \<open>
  A number is an \<open>int\<close> (a \<open>bool\<close> counts as 0 or 1) or a \<open>float\<close>; an arithmetic operator
  on another value raises \<open>TypeError\<close>. The operators are those the time conversions use,
  with a positive \<open>int\<close> constant on the right: \<open>x // c\<close>, \<open>x % c\<close>, \<open>x * c\<close>, and \<open>int(x)\<close>.
  On an infinity or a NaN, \<open>//\<close> and \<open>%\<close> give a NaN, and \<open>int\<close> raises.
\<close>

datatype pynum = NInt int | NFloat pyfloat

fun as_num :: "pyval \<Rightarrow> pyexc + pynum" where
  "as_num (VBool b) = Inr (NInt (if b then 1 else 0))"
| "as_num (VInt i) = Inr (NInt i)"
| "as_num (VFloat f) = Inr (NFloat f)"
| "as_num _ = Inl (PyException ''TypeError'')"

fun num_floordiv :: "pynum \<Rightarrow> int \<Rightarrow> pynum" where
  "num_floordiv (NInt i) c = NInt (i div c)"
| "num_floordiv (NFloat (Finite q)) c = NFloat (Finite (fst (float_div_mod q (of_int c))))"
| "num_floordiv (NFloat _) c = NFloat NaN"

fun num_mod :: "pynum \<Rightarrow> int \<Rightarrow> pynum" where
  "num_mod (NInt i) c = NInt (i mod c)"
| "num_mod (NFloat (Finite q)) c = NFloat (Finite (snd (float_div_mod q (of_int c))))"
| "num_mod (NFloat _) c = NFloat NaN"

fun num_mul :: "pynum \<Rightarrow> int \<Rightarrow> pynum" where
  "num_mul (NInt i) c = NInt (i * c)"
| "num_mul (NFloat (Finite q)) c = NFloat (Finite (fl_round (q * of_int c)))"
| "num_mul (NFloat NaN) c = NFloat NaN"
| "num_mul (NFloat PosInf) c = NFloat PosInf"
| "num_mul (NFloat NegInf) c = NFloat NegInf"

fun num_int :: "pynum \<Rightarrow> pyexc + int" where
  "num_int (NInt i) = Inr i"
| "num_int (NFloat (Finite q)) = Inr (trunc q)"
| "num_int (NFloat NaN) = Inl (PyException ''ValueError'')"
| "num_int (NFloat _) = Inl (PyException ''OverflowError'')"

text \<open>
  The remainder as the specification writes it, \<open>s % c\<close> over the rationals:
  \<open>s - c * floor(s / c)\<close>.
\<close>

definition rmod :: "rat \<Rightarrow> int \<Rightarrow> rat" where
  "rmod s c = s - of_int c * of_int \<lfloor>s / of_int c\<rfloor>"

text \<open>
  Decimal digits of a natural number, and \<open>format(i, '0wd')\<close>: the sign, then the digits
  padded with zeros on the left to the width \<open>w\<close>, the sign included.
\<close>

fun dec_nat :: "nat \<Rightarrow> string" where
  "dec_nat n =
     (if n < 10 then [''0123456789'' ! n]
      else dec_nat (n div 10) @ [''0123456789'' ! (n mod 10)])"

declare dec_nat.simps [simp del]

definition zfill :: "nat \<Rightarrow> string \<Rightarrow> string" where
  "zfill w s = replicate (w - length s) CHR ''0'' @ s"

definition fmt_d :: "nat \<Rightarrow> int \<Rightarrow> string" where
  "fmt_d w i =
     (if i < 0 then ''-'' @ zfill (w - 1) (dec_nat (nat (- i)))
      else zfill w (dec_nat (nat i)))"

section \<open>Time stamps (exporter.py)\<close>

text \<open>
  \<open>Exporter._format_timestamp\<close> (\<open>MM:SS\<close>) and \<open>Exporter._to_srt_time\<close> (\<open>HH:MM:SS,mmm\<close>), on
  the value found in a segment. The statements run in the order of the source, so the
  first operation that raises decides the exception.
\<close>

definition format_timestamp :: "pyval \<Rightarrow> pyexc + string" where
  "format_timestamp seconds =
     (case as_num seconds of Inl e \<Rightarrow> Inl e | Inr x \<Rightarrow>
      (case num_int (num_floordiv x 60) of Inl e \<Rightarrow> Inl e | Inr mins \<Rightarrow>
       (case num_int (num_mod x 60) of Inl e \<Rightarrow> Inl e | Inr secs \<Rightarrow>
          Inr (fmt_d 2 mins @ '':'' @ fmt_d 2 secs))))"

definition to_srt_time :: "pyval \<Rightarrow> pyexc + string" where
  "to_srt_time seconds =
     (case as_num seconds of Inl e \<Rightarrow> Inl e | Inr x \<Rightarrow>
      (case num_int (num_floordiv x 3600) of Inl e \<Rightarrow> Inl e | Inr hours \<Rightarrow>
       (case num_int (num_floordiv (num_mod x 3600) 60) of Inl e \<Rightarrow> Inl e | Inr minutes \<Rightarrow>
        (case num_int (num_mod x 60) of Inl e \<Rightarrow> Inl e | Inr secs \<Rightarrow>
         (case num_int (num_mul (num_mod x 1) 1000) of Inl e \<Rightarrow> Inl e | Inr millis \<Rightarrow>
            Inr (fmt_d 2 hours @ '':'' @ fmt_d 2 minutes @ '':'' @ fmt_d 2 secs @
                 '','' @ fmt_d 3 millis))))))"

section \<open>Paths and files\<close>

text \<open>
  A \<open>pathlib.Path\<close> is its directory and its final component. \<open>s.rfind(c)\<close> is the last
  index of \<open>c\<close> in \<open>s\<close>, or \<open>-1\<close>. \<open>PurePath.stem\<close> is the one of CPython up to 3.13, the
  versions WhisperX runs on: the final component up to its last dot, unless that dot is
  its first or its last character.
\<close>

record path =
  parent :: string
  name :: string

definition rfind :: "char \<Rightarrow> string \<Rightarrow> int" where
  "rfind c s =
     (if c \<in> set s
      then int (length s) - 1 - int (length (takeWhile (\<lambda>x. x \<noteq> c) (rev s)))
      else - 1)"

definition stem :: "path \<Rightarrow> string" where
  "stem p =
     (let i = rfind CHR ''.'' (name p)
      in if 0 < i \<and> i < int (length (name p)) - 1 then take (nat i) (name p) else name p)"

text \<open>
  The file system: the entries that exist, with the text of each. \<open>Path.exists()\<close> asks
  whether there is an entry.
\<close>

type_synonym filesystem = "path \<Rightarrow> string option"

definition exists :: "filesystem \<Rightarrow> path \<Rightarrow> bool" where
  "exists fs p = (fs p \<noteq> None)"

section \<open>File discovery and output paths (file_handler.py)\<close>

text \<open>
  \<open>FileHandler.__init__\<close> lower-cases the configured extensions. (It also creates the two
  directories, which no later step of the model depends on.)
\<close>

record file_handler =
  input_dir :: string
  output_dir :: string
  audio_extensions :: "string list"

definition FileHandler :: "string \<Rightarrow> string \<Rightarrow> string list \<Rightarrow> file_handler" where
  "FileHandler inp out exts =
     \<lparr>input_dir = inp, output_dir = out, audio_extensions = map lower exts\<rparr>"

text \<open>
  \<open>input_dir.glob("*" + ext)\<close> on a POSIX system, where \<open>glob\<close> compares names as they are:
  the entries of the directory whose name ends with \<open>ext\<close>, in the order of the listing.
  The extensions are taken to hold none of the pattern characters \<open>* ? [\<close> and no path
  separator.
\<close>

definition glob_star :: "string list \<Rightarrow> string \<Rightarrow> string list" where
  "glob_star entries ext = filter (\<lambda>n. endswith n ext) entries"

text \<open>
  \<open>find_audio_files\<close>, given the listing of the input directory: one glob per extension,
  the results appended, then sorted. Paths of one directory compare as their names do.
  The log records are left out; every entry found is taken to be one on which \<open>stat()\<close>,
  called for the size that is logged, returns (on an entry removed in between, \<open>stat()\<close>
  raises out of \<open>find_audio_files\<close>, which the definition does not cover).
\<close>

definition find_audio_files :: "file_handler \<Rightarrow> string list \<Rightarrow> path list" where
  "find_audio_files fh entries =
     sort_key name
       (map (\<lambda>n. \<lparr>parent = input_dir fh, name = n\<rparr>)
          (concat (map (glob_star entries) (audio_extensions fh))))"

definition get_output_path :: "file_handler \<Rightarrow> path \<Rightarrow> string \<Rightarrow> path" where
  "get_output_path fh audio_path extension =
     \<lparr>parent = output_dir fh, name = stem audio_path @ ''_transcricao.'' @ extension\<rparr>"

definition output_exists :: "file_handler \<Rightarrow> path \<Rightarrow> string list \<Rightarrow> filesystem \<Rightarrow> bool" where
  "output_exists fh audio_path formats fs =
     list_all (\<lambda>fmt. exists fs (get_output_path fh audio_path fmt)) formats"

section \<open>Result exporter (exporter.py)\<close>

text \<open>
  What the exporter takes from outside: whether \<open>open(path, 'w')\<close> raises; what
  \<open>json.dump(result, f, ensure_ascii, indent)\<close> writes and whether it then raises; and
  \<open>str(v)\<close> for a value that is not a \<open>str\<close>, as an f-string applies it.
\<close>

record io_env =
  open_w :: "path \<Rightarrow> pyexc option"
  json_dump :: "pyval \<Rightarrow> pyval \<Rightarrow> pyval \<Rightarrow> string \<times> pyexc option"
  py_str :: "pyval \<Rightarrow> string"

definition str_of :: "'a io_env_scheme \<Rightarrow> pyval \<Rightarrow> string" where
  "str_of io v = (case v of VStr s \<Rightarrow> s | _ \<Rightarrow> py_str io v)"

fun py_strip :: "pyval \<Rightarrow> pyexc + string" where
  "py_strip (VStr s) = Inr (strip s)"
| "py_strip _ = Inl (PyException ''AttributeError'')"

definition newline :: string where
  "newline = [CHR 0x0A]"

text \<open>
  One line of the text export, as the body of the loop of \<open>export_txt\<close> builds it:
  \<open>include_speakers\<close> and \<open>include_timestamps\<close> are the truth values of the two options.
\<close>

definition speaker_part :: "'a io_env_scheme \<Rightarrow> bool \<Rightarrow> pyval \<Rightarrow> pyexc + string list" where
  "speaker_part io include_speakers segment =
     (if include_speakers then
        (case py_in ''speaker'' segment of Inl e \<Rightarrow> Inl e | Inr present \<Rightarrow>
           if present then
             (case py_getitem segment ''speaker'' of Inl e \<Rightarrow> Inl e
              | Inr sp \<Rightarrow> Inr [''['' @ str_of io sp @ '']''])
           else Inr [])
      else Inr [])"

definition timestamp_part :: "bool \<Rightarrow> pyval \<Rightarrow> pyexc + string list" where
  "timestamp_part include_timestamps segment =
     (if include_timestamps then
        (case dict_get segment ''start'' (VInt 0) of Inl e \<Rightarrow> Inl e | Inr s \<Rightarrow>
         (case format_timestamp s of Inl e \<Rightarrow> Inl e | Inr start \<Rightarrow>
          (case dict_get segment ''end'' (VInt 0) of Inl e \<Rightarrow> Inl e | Inr t \<Rightarrow>
           (case format_timestamp t of Inl e \<Rightarrow> Inl e | Inr fin \<Rightarrow>
              Inr [''['' @ start @ '' -> '' @ fin @ '']'']))))
      else Inr [])"

definition txt_line :: "'a io_env_scheme \<Rightarrow> bool \<Rightarrow> bool \<Rightarrow> pyval \<Rightarrow> pyexc + string" where
  "txt_line io include_speakers include_timestamps segment =
     (case speaker_part io include_speakers segment of Inl e \<Rightarrow> Inl e | Inr p1 \<Rightarrow>
      (case timestamp_part include_timestamps segment of Inl e \<Rightarrow> Inl e | Inr p2 \<Rightarrow>
       (case dict_get segment ''text'' (VStr []) of Inl e \<Rightarrow> Inl e | Inr t \<Rightarrow>
        (case py_strip t of Inl e \<Rightarrow> Inl e | Inr txt \<Rightarrow>
           Inr (join_space (p1 @ p2 @ [txt]) @ newline)))))"

text \<open>
  The loop over the segments: the text written so far, and the exception that ended the
  loop, if one did. The lines of the segments before the failing one are in the file.
\<close>

fun txt_lines :: "'a io_env_scheme \<Rightarrow> bool \<Rightarrow> bool \<Rightarrow> pyval list \<Rightarrow> string \<times> pyexc option" where
  "txt_lines io isp its [] = ([], None)"
| "txt_lines io isp its (segment # segments) =
     (case txt_line io isp its segment of
        Inl e \<Rightarrow> ([], Some e)
      | Inr l \<Rightarrow> (case txt_lines io isp its segments of (t, r) \<Rightarrow> (l @ t, r)))"

text \<open>One cue of the subtitle export, numbered \<open>i\<close>, and the loop with \<open>enumerate(_, 1)\<close>.\<close>

definition srt_cue :: "nat \<Rightarrow> pyval \<Rightarrow> pyexc + string" where
  "srt_cue i segment =
     (case dict_get segment ''start'' (VInt 0) of Inl e \<Rightarrow> Inl e | Inr start \<Rightarrow>
      (case dict_get segment ''end'' (VInt 0) of Inl e \<Rightarrow> Inl e | Inr fin \<Rightarrow>
       (case dict_get segment ''text'' (VStr []) of Inl e \<Rightarrow> Inl e | Inr t \<Rightarrow>
        (case py_strip t of Inl e \<Rightarrow> Inl e | Inr txt \<Rightarrow>
         (case to_srt_time start of Inl e \<Rightarrow> Inl e | Inr start_time \<Rightarrow>
          (case to_srt_time fin of Inl e \<Rightarrow> Inl e | Inr end_time \<Rightarrow>
             Inr (dec_nat i @ newline @
                  start_time @ '' --> '' @ end_time @ newline @
                  txt @ newline @ newline)))))))"

fun srt_cues :: "nat \<Rightarrow> pyval list \<Rightarrow> string \<times> pyexc option" where
  "srt_cues i [] = ([], None)"
| "srt_cues i (segment # segments) =
     (case srt_cue i segment of
        Inl e \<Rightarrow> ([], Some e)
      | Inr c \<Rightarrow> (case srt_cues (Suc i) segments of (t, r) \<Rightarrow> (c @ t, r)))"

text \<open>
  The three export functions. Each returns the path it wrote, or raises, and leaves the
  file system as it is then: \<open>open\<close> creates or empties the file, and an exception raised
  after that leaves the file with what was written before it. \<open>config\<close> is
  \<open>Exporter.config\<close>, the \<open>output\<close> section of the configuration.
\<close>

definition export_json ::
  "'a io_env_scheme \<Rightarrow> pyval \<Rightarrow> pyval \<Rightarrow> path \<Rightarrow> filesystem \<Rightarrow> (pyexc + path) \<times> filesystem" where
  "export_json io config result base_path fs =
     (let json_path = \<lparr>parent = parent base_path, name = stem base_path @ ''.json''\<rparr>
      in case dict_get config ''json'' (VDict []) of Inl e \<Rightarrow> (Inl e, fs) | Inr json_config \<Rightarrow>
         (case open_w io json_path of Some e \<Rightarrow> (Inl e, fs) | None \<Rightarrow>
          (let fs1 = fs(json_path \<mapsto> [])
           in case dict_get json_config ''ensure_ascii'' (VBool False) of
                Inl e \<Rightarrow> (Inl e, fs1)
              | Inr ensure_ascii \<Rightarrow>
                (case dict_get json_config ''indent'' (VInt 2) of
                   Inl e \<Rightarrow> (Inl e, fs1)
                 | Inr indent \<Rightarrow>
                   (case json_dump io result ensure_ascii indent of
                      (text, Some e) \<Rightarrow> (Inl e, fs1(json_path \<mapsto> text))
                    | (text, None) \<Rightarrow> (Inr json_path, fs1(json_path \<mapsto> text)))))))"

definition export_txt ::
  "'a io_env_scheme \<Rightarrow> pyval \<Rightarrow> pyval \<Rightarrow> path \<Rightarrow> filesystem \<Rightarrow> (pyexc + path) \<times> filesystem" where
  "export_txt io config result base_path fs =
     (let txt_path = \<lparr>parent = parent base_path, name = stem base_path @ ''.txt''\<rparr>
      in case dict_get config ''txt'' (VDict []) of Inl e \<Rightarrow> (Inl e, fs) | Inr txt_config \<Rightarrow>
         (case dict_get txt_config ''include_speakers'' (VBool True) of
            Inl e \<Rightarrow> (Inl e, fs)
          | Inr include_speakers \<Rightarrow>
            (case dict_get txt_config ''include_timestamps'' (VBool False) of
               Inl e \<Rightarrow> (Inl e, fs)
             | Inr include_timestamps \<Rightarrow>
               (case open_w io txt_path of Some e \<Rightarrow> (Inl e, fs) | None \<Rightarrow>
                (let fs1 = fs(txt_path \<mapsto> [])
                 in case dict_get result ''segments'' (VList []) of
                      Inl e \<Rightarrow> (Inl e, fs1)
                    | Inr sv \<Rightarrow>
                      (case py_iter sv of Inl e \<Rightarrow> (Inl e, fs1) | Inr segments \<Rightarrow>
                       (case txt_lines io (truthy include_speakers)
                               (truthy include_timestamps) segments of
                          (text, Some e) \<Rightarrow> (Inl e, fs1(txt_path \<mapsto> text))
                        | (text, None) \<Rightarrow> (Inr txt_path, fs1(txt_path \<mapsto> text)))))))))"

definition export_srt ::
  "'a io_env_scheme \<Rightarrow> pyval \<Rightarrow> path \<Rightarrow> filesystem \<Rightarrow> (pyexc + path) \<times> filesystem" where
  "export_srt io result base_path fs =
     (let srt_path = \<lparr>parent = parent base_path, name = stem base_path @ ''.srt''\<rparr>
      in case open_w io srt_path of Some e \<Rightarrow> (Inl e, fs) | None \<Rightarrow>
         (let fs1 = fs(srt_path \<mapsto> [])
          in case dict_get result ''segments'' (VList []) of
               Inl e \<Rightarrow> (Inl e, fs1)
             | Inr sv \<Rightarrow>
               (case py_iter sv of Inl e \<Rightarrow> (Inl e, fs1) | Inr segments \<Rightarrow>
                (case srt_cues 1 segments of
                   (text, Some e) \<Rightarrow> (Inl e, fs1(srt_path \<mapsto> text))
                 | (text, None) \<Rightarrow> (Inr srt_path, fs1(srt_path \<mapsto> text))))))"

text \<open>
  What the program does to the world is the file system and the sequence of the calls it
  makes to the logger and to the external models. The events of the exporter are
  \<open>logger.warning("Formato desconhecido: ...")\<close>, \<open>logger.info("Exportado: ...")\<close> and
  \<open>logger.error("Erro ao exportar ...")\<close>; those of the pipeline are named after the calls.
\<close>

record stats =
  total :: nat
  success :: nat
  failed :: nat
  skipped :: nat

datatype event =
    Warn_unknown_format string
  | Info_exported path
  | Error_export string pyexc
  | Call_load_whisper_model
  | Call_find_audio_files
  | Warn_no_files
  | Info_processing path
  | Info_skipping path
  | Call_load_audio path
  | Call_transcribe path
  | Call_load_alignment_model path
  | Call_align path
  | Call_diarize path
  | Warn_diarization pyexc
  | Call_export path
  | Info_done path
  | Error_processing path pyexc
  | Call_cleanup
  | Print_stats stats

record world =
  fs :: filesystem
  trace :: "event list"

definition emit :: "event \<Rightarrow> 'a world_scheme \<Rightarrow> 'a world_scheme" where
  "emit ev w = w\<lparr>trace := trace w @ [ev]\<rparr>"

definition known_format :: "string \<Rightarrow> bool" where
  "known_format fmt = (fmt = ''json'' \<or> fmt = ''txt'' \<or> fmt = ''srt'')"

text \<open>The \<open>if\<close>/\<open>elif\<close> chain of \<open>Exporter.export\<close> for a format that it knows.\<close>

definition export_format ::
  "'a io_env_scheme \<Rightarrow> pyval \<Rightarrow> pyval \<Rightarrow> path \<Rightarrow> string \<Rightarrow> filesystem \<Rightarrow>
     (pyexc + path) \<times> filesystem" where
  "export_format io config result output_path fmt files =
     (if fmt = ''json'' then export_json io config result output_path files
      else if fmt = ''txt'' then export_txt io config result output_path files
      else export_srt io result output_path files)"

text \<open>
  \<open>Exporter.export\<close>: the loop over the formats, with the list \<open>exported_files\<close> built so far.
  \<open>except Exception\<close> ends the turn of one format; another exception leaves the loop.
\<close>

fun export_loop ::
  "'a io_env_scheme \<Rightarrow> pyval \<Rightarrow> pyval \<Rightarrow> path \<Rightarrow> string list \<Rightarrow> path list \<Rightarrow>
     'b world_scheme \<Rightarrow> (pyexc + path list) \<times> 'b world_scheme" where
  "export_loop io config result output_path [] exported_files w = (Inr exported_files, w)"
| "export_loop io config result output_path (fmt # formats) exported_files w =
     (if known_format fmt then
        (case export_format io config result output_path fmt (fs w) of
           (Inr p, fs') \<Rightarrow>
             export_loop io config result output_path formats (exported_files @ [p])
               (emit (Info_exported p) (w\<lparr>fs := fs'\<rparr>))
         | (Inl e, fs') \<Rightarrow>
             if is_Exception e then
               export_loop io config result output_path formats exported_files
                 (emit (Error_export fmt e) (w\<lparr>fs := fs'\<rparr>))
             else (Inl e, w\<lparr>fs := fs'\<rparr>))
      else
        export_loop io config result output_path formats exported_files
          (emit (Warn_unknown_format fmt) w))"

definition export ::
  "'a io_env_scheme \<Rightarrow> pyval \<Rightarrow> pyval \<Rightarrow> path \<Rightarrow> string list \<Rightarrow> 'b world_scheme \<Rightarrow>
     (pyexc + path list) \<times> 'b world_scheme" where
  "export io config result output_path formats w =
     export_loop io config result output_path formats [] w"

text \<open>
  The file of a format, as each export function names it: \<open>{stem}.{format}\<close> beside the
  base path.
\<close>

definition target_path :: "path \<Rightarrow> string \<Rightarrow> path" where
  "target_path base fmt = \<lparr>parent = parent base, name = stem base @ ''.'' @ fmt\<rparr>"

text \<open>
  For the statement of what \<open>export\<close> returns: the outcome of one known format (the path
  written, or the exception raised; it does not depend on the files that exist), the
  paths of the formats that were written, in the order of the request, and the log
  record of each requested format.
\<close>

definition export_outcome ::
  "'a io_env_scheme \<Rightarrow> pyval \<Rightarrow> pyval \<Rightarrow> path \<Rightarrow> string \<Rightarrow> pyexc + path" where
  "export_outcome io config result output_path fmt =
     fst (export_format io config result output_path fmt Map.empty)"

definition written_paths ::
  "'a io_env_scheme \<Rightarrow> pyval \<Rightarrow> pyval \<Rightarrow> path \<Rightarrow> string list \<Rightarrow> path list" where
  "written_paths io config result output_path formats =
     concat (map (\<lambda>fmt. if known_format fmt
                         then (case export_outcome io config result output_path fmt of
                                 Inr p \<Rightarrow> [p] | Inl e \<Rightarrow> [])
                         else []) formats)"

definition format_event ::
  "'a io_env_scheme \<Rightarrow> pyval \<Rightarrow> pyval \<Rightarrow> path \<Rightarrow> string \<Rightarrow> event" where
  "format_event io config result output_path fmt =
     (if known_format fmt
      then (case export_outcome io config result output_path fmt of
              Inr p \<Rightarrow> Info_exported p | Inl e \<Rightarrow> Error_export fmt e)
      else Warn_unknown_format fmt)"

section \<open>Pipeline orchestrator (transcription_pipeline.py)\<close>

text \<open>
  The external collaborators, each a function of its arguments that returns or raises:
  \<open>ModelLoader.load_whisper_model\<close> and \<open>ModelLoader.cleanup\<close> (the class is not among the
  sources), the listing of the input directory, \<open>whisperx.load_audio\<close>, the model's
  \<open>transcribe\<close>, \<open>ModelLoader.load_alignment_model\<close> for a language code, \<open>whisperx.align\<close>
  for a language code, the segments and the audio, and the three calls of \<open>_diarize\<close>
  (load the model, run it on the file, assign the speakers) taken together.
\<close>

datatype audio = Audio nat

record env = io_env +
  load_whisper_model :: "pyexc option"
  listdir :: "string list"
  load_audio :: "path \<Rightarrow> pyexc + audio"
  transcribe :: "audio \<Rightarrow> pyexc + pyval"
  load_alignment_model :: "pyval \<Rightarrow> pyexc option"
  whisperx_align :: "pyval \<Rightarrow> pyval \<Rightarrow> audio \<Rightarrow> pyexc + pyval"
  diarize :: "path \<Rightarrow> pyval \<Rightarrow> pyexc + pyval"
  cleanup :: "pyexc option"

text \<open>
  The settings the pipeline reads from its \<open>Config\<close>, each with the type its use expects:
  the truth values of \<open>processing.skip_existing\<close>, \<open>alignment.enabled\<close> and
  \<open>diarization.enabled\<close>, the list \<open>output_formats\<close>, the \<open>language\<close>, and the \<open>output\<close>
  section handed to the exporter.
\<close>

record settings =
  skip_existing :: bool
  output_formats :: "string list"
  alignment_enabled :: bool
  diarization_enabled :: bool
  language :: pyval
  output_config :: pyval

text \<open>The pipeline object: \<open>self.stats\<close>, within the world it acts on.\<close>

record pipeline = world +
  stats :: stats

definition TranscriptionPipeline :: "filesystem \<Rightarrow> pipeline" where
  "TranscriptionPipeline files =
     \<lparr>fs = files, trace = [],
      stats = \<lparr>total = 0, success = 0, failed = 0, skipped = 0\<rparr>\<rparr>"

fun py_len :: "pyval \<Rightarrow> pyexc + nat" where
  "py_len (VList xs) = Inr (length xs)"
| "py_len (VStr s) = Inr (length s)"
| "py_len (VDict kvs) = Inr (length kvs)"
| "py_len _ = Inl (PyException ''TypeError'')"

text \<open>\<open>_transcribe\<close>: the call of the model, then \<open>len(result.get('segments', []))\<close> for the log.\<close>

definition pl_transcribe :: "env \<Rightarrow> audio \<Rightarrow> pyexc + pyval" where
  "pl_transcribe env a =
     (case transcribe env a of Inl e \<Rightarrow> Inl e | Inr result \<Rightarrow>
      (case dict_get result ''segments'' (VList []) of Inl e \<Rightarrow> Inl e | Inr sv \<Rightarrow>
       (case py_len sv of Inl e \<Rightarrow> Inl e | Inr num_segments \<Rightarrow> Inr result)))"

text \<open>
  \<open>_align\<close>: the language is \<open>result.get("language", self.config.language)\<close>, the segments
  are \<open>result["segments"]\<close>, read after the alignment model is loaded.
\<close>

definition pl_align ::
  "env \<Rightarrow> settings \<Rightarrow> path \<Rightarrow> audio \<Rightarrow> pyval \<Rightarrow> pipeline \<Rightarrow> (pyexc + pyval) \<times> pipeline" where
  "pl_align env cfg audio_path a result st =
     (case dict_get result ''language'' (language cfg) of Inl e \<Rightarrow> (Inl e, st) | Inr lang \<Rightarrow>
      (let st1 = emit (Call_load_alignment_model audio_path) st
       in case load_alignment_model env lang of Some e \<Rightarrow> (Inl e, st1) | None \<Rightarrow>
          (case py_getitem result ''segments'' of Inl e \<Rightarrow> (Inl e, st1) | Inr segments \<Rightarrow>
           (let st2 = emit (Call_align audio_path) st1
            in case whisperx_align env lang segments a of
                 Inl e \<Rightarrow> (Inl e, st2)
               | Inr aligned \<Rightarrow> (Inr aligned, st2)))))"

text \<open>\<open>_diarize\<close>: \<open>except Exception\<close> logs a warning and returns the result as it was.\<close>

definition pl_diarize ::
  "env \<Rightarrow> path \<Rightarrow> pyval \<Rightarrow> pipeline \<Rightarrow> (pyexc + pyval) \<times> pipeline" where
  "pl_diarize env audio_path result st =
     (let st1 = emit (Call_diarize audio_path) st
      in case diarize env audio_path result of
           Inr diarized \<Rightarrow> (Inr diarized, st1)
         | Inl e \<Rightarrow>
             if is_Exception e then (Inr result, emit (Warn_diarization e) st1)
             else (Inl e, st1))"

text \<open>
  \<open>_process_file\<close>. The result is \<open>None\<close> when the method returns and the exception when it
  raises, with the pipeline as it is then.
\<close>

definition process_file ::
  "env \<Rightarrow> settings \<Rightarrow> file_handler \<Rightarrow> path \<Rightarrow> pipeline \<Rightarrow> pyexc option \<times> pipeline" where
  "process_file env cfg fh audio_path st =
     (let st1 = emit (Info_processing audio_path) st
      in if skip_existing cfg \<and> output_exists fh audio_path (output_formats cfg) (fs st1) then
           (None, (emit (Info_skipping audio_path) st1)
                    \<lparr>stats := (stats st1)\<lparr>skipped := skipped (stats st1) + 1\<rparr>\<rparr>)
         else
           (let st2 = emit (Call_load_audio audio_path) st1
            in case load_audio env audio_path of Inl e \<Rightarrow> (Some e, st2) | Inr a \<Rightarrow>
               (let st3 = emit (Call_transcribe audio_path) st2
                in case pl_transcribe env a of Inl e \<Rightarrow> (Some e, st3) | Inr result \<Rightarrow>
                   (case (if alignment_enabled cfg then pl_align env cfg audio_path a result st3
                          else (Inr result, st3)) of
                      (Inl e, st4) \<Rightarrow> (Some e, st4)
                    | (Inr result2, st4) \<Rightarrow>
                      (case (if diarization_enabled cfg then pl_diarize env audio_path result2 st4
                             else (Inr result2, st4)) of
                         (Inl e, st5) \<Rightarrow> (Some e, st5)
                       | (Inr result3, st5) \<Rightarrow>
                         (let output_base = get_output_path fh audio_path []
                          in case export env (output_config cfg) result3 output_base
                                    (output_formats cfg) (emit (Call_export audio_path) st5) of
                               (Inl e, st6) \<Rightarrow> (Some e, st6)
                             | (Inr files, st6) \<Rightarrow> (None, emit (Info_done audio_path) st6)))))))"

text \<open>
  The loop of \<open>run\<close>: \<open>success\<close> is incremented when \<open>_process_file\<close> returns, \<open>failed\<close> when it
  raises an \<open>Exception\<close>; another exception leaves the loop and \<open>run\<close>.
\<close>

fun run_loop ::
  "env \<Rightarrow> settings \<Rightarrow> file_handler \<Rightarrow> path list \<Rightarrow> pipeline \<Rightarrow> pyexc option \<times> pipeline" where
  "run_loop env cfg fh [] st = (None, st)"
| "run_loop env cfg fh (audio_file # audio_files) st =
     (case process_file env cfg fh audio_file st of
        (None, st') \<Rightarrow>
          run_loop env cfg fh audio_files
            (st'\<lparr>stats := (stats st')\<lparr>success := success (stats st') + 1\<rparr>\<rparr>)
      | (Some e, st') \<Rightarrow>
          if is_Exception e then
            run_loop env cfg fh audio_files
              ((emit (Error_processing audio_file e) st')
                 \<lparr>stats := (stats st')\<lparr>failed := failed (stats st') + 1\<rparr>\<rparr>)
          else (Some e, st'))"

text \<open>
  \<open>run\<close>: load the model, find the files, return at once if there are none, else set
  \<open>total\<close>, run the loop, clean up and print the statistics.
\<close>

definition run :: "env \<Rightarrow> settings \<Rightarrow> file_handler \<Rightarrow> pipeline \<Rightarrow> pyexc option \<times> pipeline" where
  "run env cfg fh st =
     (let st1 = emit Call_load_whisper_model st
      in case load_whisper_model env of Some e \<Rightarrow> (Some e, st1) | None \<Rightarrow>
         (let st2 = emit Call_find_audio_files st1;
              audio_files = find_audio_files fh (listdir env)
          in if audio_files = [] then (None, emit Warn_no_files st2)
             else
               (let st3 = st2\<lparr>stats := (stats st2)\<lparr>total := length audio_files\<rparr>\<rparr>
                in case run_loop env cfg fh audio_files st3 of
                     (Some e, st4) \<Rightarrow> (Some e, st4)
                   | (None, st4) \<Rightarrow>
                     (let st5 = emit Call_cleanup st4
                      in case cleanup env of
                           Some e \<Rightarrow> (Some e, st5)
                         | None \<Rightarrow> (None, emit (Print_stats (stats st5)) st5)))))"

text \<open>
  For the statements about a run: the files whose processing started (the records
  \<open>"Processando: ..."\<close>), the files counted as failed (the records
  \<open>"Erro ao processar ..."\<close> of the handler in \<open>run\<close>), the files skipped (the records
  \<open>"... pulando: ..."\<close>), and the events that \<open>run\<close> itself emits outside its
  loop.
\<close>

fun processed :: "event list \<Rightarrow> path list" where
  "processed [] = []"
| "processed (Info_processing p # evs) = p # processed evs"
| "processed (ev # evs) = processed evs"

fun failures :: "event list \<Rightarrow> path list" where
  "failures [] = []"
| "failures (Error_processing p e # evs) = p # failures evs"
| "failures (ev # evs) = failures evs"

fun skips :: "event list \<Rightarrow> path list" where
  "skips [] = []"
| "skips (Info_skipping p # evs) = p # skips evs"
| "skips (ev # evs) = skips evs"

fun run_level :: "event \<Rightarrow> bool" where
  "run_level Call_load_whisper_model = True"
| "run_level Call_find_audio_files = True"
| "run_level Warn_no_files = True"
| "run_level Call_cleanup = True"
| "run_level (Print_stats s) = True"
| "run_level ev = False"

text \<open>
  The events of one file after its \<open>"Processando"\<close> record, and a step of the pipeline that
  emits only such events and leaves the three counters other than \<open>skipped\<close> as they are.
\<close>

fun file_event :: "event \<Rightarrow> bool" where
  "file_event (Info_processing p) = False"
| "file_event (Error_processing p e) = False"
| "file_event ev = (\<not> run_level ev)"

definition file_steps :: "pipeline \<Rightarrow> pipeline \<Rightarrow> bool" where
  "file_steps st st' =
     (stats st' = stats st \<and>
      (\<exists>evs. trace st' = trace st @ evs \<and> list_all file_event evs \<and> skips evs = []))"













definition one_segment :: pyval where
  "one_segment = VDict [(''segments'', VList [VDict [(''text'', VStr ''hello'')]])]"

definition quiet_env :: "string list \<Rightarrow> env" where
  "quiet_env listing =
     \<lparr>open_w = (\<lambda>p. None), json_dump = (\<lambda>r a i. (''{}'', None)), py_str = (\<lambda>v. []),
      load_whisper_model = None,
      listdir = listing,
      load_audio = (\<lambda>p. Inr (Audio (length (name p)))),
      transcribe = (\<lambda>a. Inr one_segment),
      load_alignment_model = (\<lambda>lang. None),
      whisperx_align = (\<lambda>lang segments a. Inr (VDict [(''segments'', segments)])),
      diarize = (\<lambda>p r. Inr r),
      cleanup = None\<rparr>"

definition faulty_env :: "string list \<Rightarrow> env" where
  "faulty_env listing =
     (quiet_env listing)
       \<lparr>load_audio := (\<lambda>p. Inr (Audio (if name p = ''b.mp3'' then 1 else 0))),
        transcribe := (\<lambda>a. if a = Audio 1 then Inl (PyException ''RuntimeError'')
                             else Inr one_segment)\<rparr>"

definition default_settings :: settings where
  "default_settings =
     \<lparr>skip_existing = False, output_formats = [''json'', ''txt'', ''srt''],
      alignment_enabled = True, diarization_enabled = False,
      language = VStr ''pt'', output_config = VDict []\<rparr>"

section \<open>Properties of the configuration accessor\<close>

lemma get_loop_walk:
  "get_loop val keys dflt =
     Inr (case walk_path val keys of
            None \<Rightarrow> dflt
          | Some v \<Rightarrow> if v = VNone \<and> keys \<noteq> [] then dflt else v)"
proof (induction keys arbitrary: val)
  case Nil
  show ?case by simp
next
  case (Cons key keys)
  show ?case
  proof (cases val)
    case (VDict kvs)
    show ?thesis
    proof (cases "map_of kvs key")
      case None
      with VDict show ?thesis by simp
    next
      case (Some v)
      show ?thesis
      proof (cases "v = VNone")
        case True
        with VDict Some show ?thesis by (cases keys) simp_all
      next
        case False
        with VDict Some Cons.IH [of v] show ?thesis
          by (cases keys) (auto split: option.splits)
      qed
    qed
  qed simp_all
qed

lemma split_on_nonempty: "split_on sep s \<noteq> []"
  by (induction s) (auto split: list.splits)

text \<open>
  Claim C5. \<open>Config.get\<close> never raises; a key path that is not present in the tree (a key
  is missing, or a value to descend into is not a mapping) gives the supplied default; a
  key path that is present gives the value found there, except that a value \<open>None\<close> gives
  the default as well.
\<close>

theorem Config_get_default:
  "(\<exists>v. Config_get config key_path dflt = Inr v) \<and>
   (walk_path config (split_on CHR ''.'' key_path) = None \<longrightarrow>
      Config_get config key_path dflt = Inr dflt) \<and>
   (\<forall>v. walk_path config (split_on CHR ''.'' key_path) = Some v \<longrightarrow>
      Config_get config key_path dflt = Inr (if v = VNone then dflt else v))"
  using split_on_nonempty [of "CHR ''.''" key_path]
  by (simp add: Config_get_def get_loop_walk)

theorem Config_get_default_witness:
  "walk_path (VDict [(''whisper'', VDict [(''language'', VStr ''pt'')])])
       (split_on CHR ''.'' ''whisper.model_size'') = None \<and>
   Config_get (VDict [(''whisper'', VDict [(''language'', VStr ''pt'')])])
       ''whisper.model_size'' (VStr ''large-v2'') = Inr (VStr ''large-v2'') \<and>
   walk_path (VDict [(''whisper'', VDict [(''language'', VStr ''pt'')])])
       (split_on CHR ''.'' ''whisper.language'') = Some (VStr ''pt'') \<and>
   Config_get (VDict [(''whisper'', VDict [(''language'', VStr ''pt'')])])
       ''whisper.language'' (VStr ''en'') = Inr (VStr ''pt'')"
  using Config_get_default
    [of "VDict [(''whisper'', VDict [(''language'', VStr ''pt'')])]"
        "''whisper.model_size''" "VStr ''large-v2''"]
    Config_get_default
    [of "VDict [(''whisper'', VDict [(''language'', VStr ''pt'')])]"
        "''whisper.language''" "VStr ''en''"]
  by simp

section \<open>Properties of the exporter\<close>


lemma export_json_fst:
  "fst (export_json io config result base fs1) = fst (export_json io config result base fs2)"
  by (simp add: export_json_def Let_def split: sum.splits option.splits prod.splits)

lemma export_txt_fst:
  "fst (export_txt io config result base fs1) = fst (export_txt io config result base fs2)"
  by (simp add: export_txt_def Let_def split: sum.splits option.splits prod.splits)

lemma export_srt_fst:
  "fst (export_srt io result base fs1) = fst (export_srt io result base fs2)"
  by (simp add: export_srt_def Let_def split: sum.splits option.splits prod.splits)

lemma export_json_fs:
  "export_json io config result base fs1 = (r, fs2) \<Longrightarrow>
     dom fs1 \<subseteq> dom fs2 \<and> (\<forall>p. r = Inr p \<longrightarrow> fs2 p \<noteq> None)"
  by (auto simp add: export_json_def Let_def split: sum.splits option.splits prod.splits)

lemma export_txt_fs:
  "export_txt io config result base fs1 = (r, fs2) \<Longrightarrow>
     dom fs1 \<subseteq> dom fs2 \<and> (\<forall>p. r = Inr p \<longrightarrow> fs2 p \<noteq> None)"
  by (auto simp add: export_txt_def Let_def split: sum.splits option.splits prod.splits)

lemma export_srt_fs:
  "export_srt io result base fs1 = (r, fs2) \<Longrightarrow>
     dom fs1 \<subseteq> dom fs2 \<and> (\<forall>p. r = Inr p \<longrightarrow> fs2 p \<noteq> None)"
  by (auto simp add: export_srt_def Let_def split: sum.splits option.splits prod.splits)

lemma export_format_outcome:
  "fst (export_format io config result base fmt files) = export_outcome io config result base fmt"
  unfolding export_outcome_def export_format_def
  using export_json_fst [of io config result base files Map.empty]
        export_txt_fst [of io config result base files Map.empty]
        export_srt_fst [of io result base files Map.empty]
  by simp

lemma export_format_fs:
  assumes "export_format io config result base fmt fs1 = (r, fs2)"
  shows "dom fs1 \<subseteq> dom fs2" and "r = Inr p \<Longrightarrow> p \<in> dom fs2"
  using assms export_json_fs [of io config result base fs1 r fs2]
        export_txt_fs [of io config result base fs1 r fs2]
        export_srt_fs [of io result base fs1 r fs2]
  by (auto simp add: export_format_def split: if_splits)

lemma export_loop_char:
  assumes "\<forall>fmt \<in> set formats. known_format fmt \<longrightarrow>
             (\<forall>e. export_outcome io config result base fmt = Inl e \<longrightarrow> is_Exception e)"
  shows "\<exists>w'. export_loop io config result base formats acc w =
                 (Inr (acc @ written_paths io config result base formats), w') \<and>
              trace w' = trace w @ map (format_event io config result base) formats \<and>
              dom (fs w) \<subseteq> dom (fs w') \<and>
              set (written_paths io config result base formats) \<subseteq> dom (fs w')"
  using assms
proof (induction formats arbitrary: acc w)
  case Nil
  show ?case by (simp add: written_paths_def)
next
  case (Cons fmt formats)
  have rest: "\<forall>f \<in> set formats. known_format f \<longrightarrow>
             (\<forall>e. export_outcome io config result base f = Inl e \<longrightarrow> is_Exception e)"
    using Cons.prems by simp
  show ?case
  proof (cases "known_format fmt")
    case False
    from Cons.IH [OF rest, of acc "emit (Warn_unknown_format fmt) w"]
    obtain w' where
      "export_loop io config result base formats acc (emit (Warn_unknown_format fmt) w) =
         (Inr (acc @ written_paths io config result base formats), w')"
      "trace w' = trace (emit (Warn_unknown_format fmt) w) @
         map (format_event io config result base) formats"
      "dom (fs (emit (Warn_unknown_format fmt) w)) \<subseteq> dom (fs w')"
      "set (written_paths io config result base formats) \<subseteq> dom (fs w')"
      by blast
    with False show ?thesis
      by (simp add: written_paths_def format_event_def emit_def)
  next
    case True
    obtain r fs' where ef: "export_format io config result base fmt (fs w) = (r, fs')"
      by (cases "export_format io config result base fmt (fs w)")
    have out: "export_outcome io config result base fmt = r"
      using export_format_outcome [of io config result base fmt "fs w"] ef by simp
    have d1: "dom (fs w) \<subseteq> dom fs'" using export_format_fs(1) [OF ef] .
    show ?thesis
    proof (cases r)
      case (Inr p)
      have pin: "p \<in> dom fs'" using export_format_fs(2) [OF ef Inr] .
      from Cons.IH [OF rest, of "acc @ [p]" "emit (Info_exported p) (w\<lparr>fs := fs'\<rparr>)"]
      obtain w' where
        "export_loop io config result base formats (acc @ [p])
            (emit (Info_exported p) (w\<lparr>fs := fs'\<rparr>)) =
           (Inr ((acc @ [p]) @ written_paths io config result base formats), w')"
        "trace w' = trace (emit (Info_exported p) (w\<lparr>fs := fs'\<rparr>)) @
           map (format_event io config result base) formats"
        "dom (fs (emit (Info_exported p) (w\<lparr>fs := fs'\<rparr>))) \<subseteq> dom (fs w')"
        "set (written_paths io config result base formats) \<subseteq> dom (fs w')"
        by blast
      with True ef Inr out d1 pin show ?thesis
        by (auto simp add: written_paths_def format_event_def emit_def)
    next
      case (Inl e)
      have ex: "is_Exception e" using Cons.prems True out Inl by simp
      from Cons.IH [OF rest, of acc "emit (Error_export fmt e) (w\<lparr>fs := fs'\<rparr>)"]
      obtain w' where
        "export_loop io config result base formats acc
            (emit (Error_export fmt e) (w\<lparr>fs := fs'\<rparr>)) =
           (Inr (acc @ written_paths io config result base formats), w')"
        "trace w' = trace (emit (Error_export fmt e) (w\<lparr>fs := fs'\<rparr>)) @
           map (format_event io config result base) formats"
        "dom (fs (emit (Error_export fmt e) (w\<lparr>fs := fs'\<rparr>))) \<subseteq> dom (fs w')"
        "set (written_paths io config result base formats) \<subseteq> dom (fs w')"
        by blast
      with True ef Inl out d1 ex show ?thesis
        by (auto simp add: written_paths_def format_event_def emit_def)
    qed
  qed
qed


lemma export_format_target:
  assumes "known_format fmt"
    and "export_format io config result base fmt fs1 = (x, fs2)"
  shows "p \<noteq> target_path base fmt \<Longrightarrow> fs2 p = fs1 p"
    and "x = Inr q \<Longrightarrow> q = target_path base fmt"
  using assms
  by (auto simp add: export_format_def known_format_def target_path_def export_json_def
      export_txt_def export_srt_def Let_def
      split: sum.splits option.splits prod.splits if_splits)

lemma export_loop_untouched:
  assumes "export_loop io config result base formats acc w = (x, w')"
    and "\<forall>fmt \<in> set formats. known_format fmt \<longrightarrow> p \<noteq> target_path base fmt"
  shows "fs w' p = fs w p"
  using assms
proof (induction formats arbitrary: acc w)
  case Nil
  then show ?case by simp
next
  case (Cons fmt formats)
  have rest: "\<forall>f \<in> set formats. known_format f \<longrightarrow> p \<noteq> target_path base f"
    using Cons.prems(2) by simp
  show ?case
  proof (cases "known_format fmt")
    case False
    with Cons.prems(1) have
      "export_loop io config result base formats acc (emit (Warn_unknown_format fmt) w) = (x, w')"
      by simp
    from Cons.IH [OF this rest] show ?thesis by (simp add: emit_def)
  next
    case True
    obtain y fs' where ef: "export_format io config result base fmt (fs w) = (y, fs')"
      by (cases "export_format io config result base fmt (fs w)")
    have "p \<noteq> target_path base fmt" using Cons.prems(2) True by simp
    from export_format_target(1) [OF True ef this] have same: "fs' p = fs w p" .
    show ?thesis
    proof (cases y)
      case (Inr q)
      with Cons.prems(1) True ef have
        "export_loop io config result base formats (acc @ [q])
           (emit (Info_exported q) (w\<lparr>fs := fs'\<rparr>)) = (x, w')"
        by simp
      from Cons.IH [OF this rest] same show ?thesis by (simp add: emit_def)
    next
      case (Inl e)
      show ?thesis
      proof (cases "is_Exception e")
        case True
        with Cons.prems(1) \<open>known_format fmt\<close> ef Inl have
          "export_loop io config result base formats acc
             (emit (Error_export fmt e) (w\<lparr>fs := fs'\<rparr>)) = (x, w')"
          by simp
        from Cons.IH [OF this rest] same show ?thesis by (simp add: emit_def)
      next
        case False
        with Cons.prems(1) \<open>known_format fmt\<close> ef Inl have "w' = w\<lparr>fs := fs'\<rparr>"
          by simp
        with same show ?thesis by simp
      qed
    qed
  qed
qed

lemma export_outcome_target:
  "known_format fmt \<Longrightarrow> export_outcome io config result base fmt = Inr q \<Longrightarrow>
     q = target_path base fmt"
  unfolding export_outcome_def
  using export_format_target(2) [of fmt io config result base Map.empty]
  by (cases "export_format io config result base fmt Map.empty") auto

lemma stem_base: "stem \<lparr>parent = ''out'', name = ''a_transcricao.''\<rparr> = ''a_transcricao.''"
  by (simp add: stem_def rfind_def)

lemma outcome_json_ex:
  "export_outcome
     \<lparr>open_w = (\<lambda>p. if name p = ''a_transcricao..txt'' then Some (PyException ''OSError'') else None),
      json_dump = (\<lambda>r a i. (''{}'', None)), py_str = (\<lambda>v. [])\<rparr>
     (VDict []) (VDict [(''segments'', VList [])])
     \<lparr>parent = ''out'', name = ''a_transcricao.''\<rparr> ''json''
   = Inr \<lparr>parent = ''out'', name = ''a_transcricao..json''\<rparr>"
  by (simp add: export_outcome_def export_format_def export_json_def stem_base Let_def)

lemma outcome_txt_ex:
  "export_outcome
     \<lparr>open_w = (\<lambda>p. if name p = ''a_transcricao..txt'' then Some (PyException ''OSError'') else None),
      json_dump = (\<lambda>r a i. (''{}'', None)), py_str = (\<lambda>v. [])\<rparr>
     (VDict []) (VDict [(''segments'', VList [])])
     \<lparr>parent = ''out'', name = ''a_transcricao.''\<rparr> ''txt''
   = Inl (PyException ''OSError'')"
  by (simp add: export_outcome_def export_format_def export_txt_def stem_base Let_def)

lemma outcome_srt_ex:
  "export_outcome
     \<lparr>open_w = (\<lambda>p. if name p = ''a_transcricao..txt'' then Some (PyException ''OSError'') else None),
      json_dump = (\<lambda>r a i. (''{}'', None)), py_str = (\<lambda>v. [])\<rparr>
     (VDict []) (VDict [(''segments'', VList [])])
     \<lparr>parent = ''out'', name = ''a_transcricao.''\<rparr> ''srt''
   = Inr \<lparr>parent = ''out'', name = ''a_transcricao..srt''\<rparr>"
  by (simp add: export_outcome_def export_format_def export_srt_def stem_base Let_def)

text \<open>
  Claim C8, as stated, fails in its last clause: a format whose export raises after its
  file was opened leaves that file behind, written in part, and the list returned does
  not hold it. Here \<open>json.dump\<close> writes one character and raises.
\<close>

theorem export_failure_leaves_file:
  "export
     \<lparr>open_w = (\<lambda>p. None),
      json_dump = (\<lambda>r a i. (''{'', Some (PyException ''ValueError''))),
      py_str = (\<lambda>v. [])\<rparr>
     (VDict []) (VDict [(''segments'', VList [])])
     \<lparr>parent = ''out'', name = ''a_transcricao.''\<rparr> [''json'']
     \<lparr>fs = Map.empty, trace = []\<rparr>
   = (Inr [],
      \<lparr>fs = [\<lparr>parent = ''out'', name = ''a_transcricao..json''\<rparr> \<mapsto> ''{''],
       trace = [Error_export ''json'' (PyException ''ValueError'')]\<rparr>)"
  by (simp add: export_def known_format_def export_format_def export_json_def stem_base
      Let_def emit_def)

text \<open>
  Claim C8, as amended. When no export raises anything but an \<open>Exception\<close>, \<open>export\<close>
  returns, for every list of formats. The list returned holds the paths of the known
  formats whose export function returned, in the order of the request; each of them is
  the file of its format and exists. Every requested format leaves one log record, a
  warning for an unknown name, an error for an export that raised, and neither keeps a
  later format from being exported, since the outcome of a format depends on nothing
  done for the others. No file other than the files of the requested known formats is
  touched.
\<close>

theorem export_formats_independent:
  assumes "\<forall>fmt \<in> set formats. known_format fmt \<longrightarrow>
             (\<forall>e. export_outcome io config result output_path fmt = Inl e \<longrightarrow> is_Exception e)"
  shows "\<exists>w'. export io config result output_path formats w =
                 (Inr (written_paths io config result output_path formats), w') \<and>
              trace w' = trace w @ map (format_event io config result output_path) formats \<and>
              (\<forall>p \<in> set (written_paths io config result output_path formats).
                 exists (fs w') p \<and>
                 (\<exists>fmt \<in> set formats. known_format fmt \<and> p = target_path output_path fmt)) \<and>
              (\<forall>p. (\<forall>fmt \<in> set formats. known_format fmt \<longrightarrow> p \<noteq> target_path output_path fmt)
                   \<longrightarrow> fs w' p = fs w p)"
proof -
  from export_loop_char [OF assms, of "[]" w]
  obtain w' where e:
    "export_loop io config result output_path formats [] w =
       (Inr ([] @ written_paths io config result output_path formats), w')"
    "trace w' = trace w @ map (format_event io config result output_path) formats"
    "set (written_paths io config result output_path formats) \<subseteq> dom (fs w')"
    by blast
  have un: "\<forall>p. (\<forall>fmt \<in> set formats. known_format fmt \<longrightarrow> p \<noteq> target_path output_path fmt)
              \<longrightarrow> fs w' p = fs w p"
    using export_loop_untouched [OF e(1)] by blast
  have tg: "\<forall>p \<in> set (written_paths io config result output_path formats).
              \<exists>fmt \<in> set formats. known_format fmt \<and> p = target_path output_path fmt"
    using export_outcome_target [of _ io config result output_path]
    by (auto simp add: written_paths_def split: if_splits sum.splits)
  show ?thesis
    using e un tg by (intro exI [of _ w']) (auto simp add: export_def exists_def)
qed

theorem export_formats_independent_witness:
  "fst (export
     \<lparr>open_w = (\<lambda>p. if name p = ''a_transcricao..txt'' then Some (PyException ''OSError'') else None),
      json_dump = (\<lambda>r a i. (''{}'', None)), py_str = (\<lambda>v. [])\<rparr>
     (VDict []) (VDict [(''segments'', VList [])])
     \<lparr>parent = ''out'', name = ''a_transcricao.''\<rparr>
     [''json'', ''xml'', ''txt'', ''srt'']
     \<lparr>fs = Map.empty, trace = []\<rparr>)
   = Inr [\<lparr>parent = ''out'', name = ''a_transcricao..json''\<rparr>,
          \<lparr>parent = ''out'', name = ''a_transcricao..srt''\<rparr>] \<and>
   trace (snd (export
     \<lparr>open_w = (\<lambda>p. if name p = ''a_transcricao..txt'' then Some (PyException ''OSError'') else None),
      json_dump = (\<lambda>r a i. (''{}'', None)), py_str = (\<lambda>v. [])\<rparr>
     (VDict []) (VDict [(''segments'', VList [])])
     \<lparr>parent = ''out'', name = ''a_transcricao.''\<rparr>
     [''json'', ''xml'', ''txt'', ''srt'']
     \<lparr>fs = Map.empty, trace = []\<rparr>))
   = [Info_exported \<lparr>parent = ''out'', name = ''a_transcricao..json''\<rparr>,
      Warn_unknown_format ''xml'',
      Error_export ''txt'' (PyException ''OSError''),
      Info_exported \<lparr>parent = ''out'', name = ''a_transcricao..srt''\<rparr>]"
proof -
  let ?io = "\<lparr>open_w = (\<lambda>p. if name p = ''a_transcricao..txt''
                                then Some (PyException ''OSError'') else None),
              json_dump = (\<lambda>r a i. (''{}'', None)), py_str = (\<lambda>v. [])\<rparr>"
  let ?res = "VDict [(''segments'', VList [])]"
  let ?base = "\<lparr>parent = ''out'', name = ''a_transcricao.''\<rparr>"
  let ?fmts = "[''json'', ''xml'', ''txt'', ''srt'']"
  let ?w = "\<lparr>fs = Map.empty, trace = []\<rparr>"
  have h: "\<forall>fmt \<in> set ?fmts. known_format fmt \<longrightarrow>
             (\<forall>e. export_outcome ?io (VDict []) ?res ?base fmt = Inl e \<longrightarrow> is_Exception e)"
    by (auto simp add: known_format_def outcome_json_ex outcome_txt_ex outcome_srt_ex)
  from export_formats_independent [OF h, of ?w] obtain w' where
    "export ?io (VDict []) ?res ?base ?fmts ?w =
       (Inr (written_paths ?io (VDict []) ?res ?base ?fmts), w')"
    "trace w' = trace ?w @ map (format_event ?io (VDict []) ?res ?base) ?fmts"
    by blast
  then show ?thesis
    by (simp add: written_paths_def format_event_def known_format_def
        outcome_json_ex outcome_txt_ex outcome_srt_ex)
qed

section \<open>Properties of the file handler and of the export paths\<close>

lemma rfind_last: "rfind c (xs @ [c]) = int (length xs)"
  by (simp add: rfind_def)

lemma stem_trailing_dot:
  "stem \<lparr>parent = d, name = xs @ ''.''\<rparr> = xs @ ''.''"
  using rfind_last [of "CHR ''.''" xs] by (simp add: stem_def)

lemma export_json_name:
  "fst (export_json io config result (get_output_path fh p []) files) = Inr q \<Longrightarrow>
     name q = stem p @ ''_transcricao..json''"
  using stem_trailing_dot [of "output_dir fh" "stem p @ ''_transcricao''"]
  by (auto simp add: export_json_def get_output_path_def Let_def
      split: sum.splits option.splits prod.splits)

text \<open>
  Claim C1. The pipeline hands \<open>get_output_path(audio_path, '')\<close> to the exporter, a name
  that ends with a dot; its stem is the name itself, so each export function appends its
  suffix after that dot. For \<open>a.mp3\<close> the files written are \<open>a_transcricao..json\<close>,
  \<open>a_transcricao..txt\<close> and \<open>a_transcricao..srt\<close>, while \<open>get_output_path(p, 'json')\<close> is
  \<open>a_transcricao.json\<close>: after the export, \<open>output_exists(p, ['json'])\<close> is false.
\<close>

theorem export_misses_output_path:
  "fst (export
     \<lparr>open_w = (\<lambda>p. None), json_dump = (\<lambda>r a i. (''{}'', None)), py_str = (\<lambda>v. [])\<rparr>
     (VDict []) (VDict [(''segments'', VList [])])
     (get_output_path (FileHandler ''data/input'' ''data/output'' [''.mp3''])
        \<lparr>parent = ''data/input'', name = ''a.mp3''\<rparr> [])
     [''json'', ''txt'', ''srt'']
     \<lparr>fs = Map.empty, trace = []\<rparr>)
   = Inr [\<lparr>parent = ''data/output'', name = ''a_transcricao..json''\<rparr>,
          \<lparr>parent = ''data/output'', name = ''a_transcricao..txt''\<rparr>,
          \<lparr>parent = ''data/output'', name = ''a_transcricao..srt''\<rparr>] \<and>
   get_output_path (FileHandler ''data/input'' ''data/output'' [''.mp3''])
        \<lparr>parent = ''data/input'', name = ''a.mp3''\<rparr> ''json''
   = \<lparr>parent = ''data/output'', name = ''a_transcricao.json''\<rparr> \<and>
   \<not> output_exists (FileHandler ''data/input'' ''data/output'' [''.mp3''])
        \<lparr>parent = ''data/input'', name = ''a.mp3''\<rparr> [''json'']
        (fs (snd (export
           \<lparr>open_w = (\<lambda>p. None), json_dump = (\<lambda>r a i. (''{}'', None)), py_str = (\<lambda>v. [])\<rparr>
           (VDict []) (VDict [(''segments'', VList [])])
           (get_output_path (FileHandler ''data/input'' ''data/output'' [''.mp3''])
              \<lparr>parent = ''data/input'', name = ''a.mp3''\<rparr> [])
           [''json'', ''txt'', ''srt'']
           \<lparr>fs = Map.empty, trace = []\<rparr>)))"
  by (simp add: export_def known_format_def export_format_def export_json_def export_txt_def
      export_srt_def get_output_path_def FileHandler_def stem_def rfind_def Let_def emit_def
      output_exists_def exists_def)

text \<open>
  Claim C2. On the example of the specification, files \<open>b.MP3\<close>, \<open>a.wav\<close>, \<open>c.txt\<close> and
  extensions \<open>.mp3\<close>, \<open>.wav\<close>, \<open>find_audio_files\<close> returns \<open>a.wav\<close> alone: the extensions are
  lower-cased, the names of the files are not, and the glob \<open>*.mp3\<close> does not match
  \<open>b.MP3\<close>.
\<close>

theorem find_audio_files_misses_upper_case:
  "find_audio_files (FileHandler ''data/input'' ''data/output'' [''.mp3'', ''.wav''])
     [''b.MP3'', ''a.wav'', ''c.txt'']
   = [\<lparr>parent = ''data/input'', name = ''a.wav''\<rparr>]"
  by (simp add: find_audio_files_def FileHandler_def glob_star_def endswith_def lower_def
      char_lower_def)

section \<open>Properties of the pipeline\<close>

text \<open>
  Claim C7. With \<open>skip_existing\<close> enabled and the output path of every configured format
  existing, \<open>_process_file\<close> returns at once: \<open>skipped\<close> is one more, the other counters and
  the files are as before, and the trace gains the two log records and nothing else, so
  neither \<open>load_audio\<close> nor \<open>transcribe\<close> is called.
\<close>

theorem process_file_skips:
  assumes "skip_existing cfg"
    and "output_exists fh audio_path (output_formats cfg) (fs st)"
  shows "process_file env cfg fh audio_path st =
           (None, st\<lparr>trace := trace st @ [Info_processing audio_path, Info_skipping audio_path],
                     stats := (stats st)\<lparr>skipped := skipped (stats st) + 1\<rparr>\<rparr>)"
  using assms by (simp add: process_file_def emit_def Let_def)




lemma processed_append: "processed (xs @ ys) = processed xs @ processed ys"
  by (induction xs rule: processed.induct) simp_all

lemma failures_append: "failures (xs @ ys) = failures xs @ failures ys"
  by (induction xs rule: failures.induct) simp_all

lemma skips_append: "skips (xs @ ys) = skips xs @ skips ys"
  by (induction xs rule: skips.induct) simp_all

lemma processed_file_events: "list_all file_event evs \<Longrightarrow> processed evs = []"
  by (induction evs rule: processed.induct) simp_all

lemma failures_file_events: "list_all file_event evs \<Longrightarrow> failures evs = []"
  by (induction evs rule: failures.induct) simp_all

lemma file_event_not_run_level: "file_event ev \<Longrightarrow> \<not> run_level ev"
  by (cases ev) simp_all

lemma file_steps_refl: "file_steps st st"
  by (simp add: file_steps_def)

lemma file_steps_trans: "file_steps a b \<Longrightarrow> file_steps b c \<Longrightarrow> file_steps a c"
  by (auto simp add: file_steps_def skips_append)

lemma file_steps_emit:
  "file_event ev \<Longrightarrow> skips [ev] = [] \<Longrightarrow> file_steps st (emit ev st)"
  by (simp add: file_steps_def emit_def)

lemma file_steps_fs: "file_steps st (st\<lparr>fs := files\<rparr>)"
  by (simp add: file_steps_def)

lemma export_loop_steps:
  "export_loop io config result base formats acc (st :: pipeline) = (r, st') \<Longrightarrow> file_steps st st'"
proof (induction formats arbitrary: acc st)
  case Nil
  then show ?case by (simp add: file_steps_refl)
next
  case (Cons fmt formats)
  show ?case
  proof (cases "known_format fmt")
    case False
    with Cons.prems have
      "export_loop io config result base formats acc (emit (Warn_unknown_format fmt) st) = (r, st')"
      by simp
    from Cons.IH [OF this] file_steps_emit [of "Warn_unknown_format fmt" st]
    show ?thesis by (auto intro: file_steps_trans)
  next
    case True
    obtain x fs' where ef: "export_format io config result base fmt (fs st) = (x, fs')"
      by (cases "export_format io config result base fmt (fs st)")
    show ?thesis
    proof (cases x)
      case (Inr p)
      with Cons.prems True ef have
        "export_loop io config result base formats (acc @ [p])
           (emit (Info_exported p) (st\<lparr>fs := fs'\<rparr>)) = (r, st')"
        by simp
      from Cons.IH [OF this] file_steps_emit [of "Info_exported p" "st\<lparr>fs := fs'\<rparr>"]
        file_steps_fs [of st fs']
      show ?thesis by (auto intro: file_steps_trans)
    next
      case (Inl e)
      show ?thesis
      proof (cases "is_Exception e")
        case True
        with Cons.prems \<open>known_format fmt\<close> ef Inl have
          "export_loop io config result base formats acc
             (emit (Error_export fmt e) (st\<lparr>fs := fs'\<rparr>)) = (r, st')"
          by simp
        from Cons.IH [OF this] file_steps_emit [of "Error_export fmt e" "st\<lparr>fs := fs'\<rparr>"]
          file_steps_fs [of st fs']
        show ?thesis by (auto intro: file_steps_trans)
      next
        case False
        with Cons.prems \<open>known_format fmt\<close> ef Inl have "st' = st\<lparr>fs := fs'\<rparr>"
          by simp
        then show ?thesis by (simp add: file_steps_fs)
      qed
    qed
  qed
qed

lemma pl_align_steps:
  "pl_align env cfg audio_path a result st = (r, st') \<Longrightarrow> file_steps st st'"
  by (auto simp add: pl_align_def Let_def file_steps_def emit_def
      split: sum.splits option.splits)

lemma pl_diarize_steps:
  "pl_diarize env audio_path result st = (r, st') \<Longrightarrow> file_steps st st'"
  by (auto simp add: pl_diarize_def Let_def file_steps_def emit_def
      split: sum.splits option.splits if_splits)


lemma emit_steps: "file_event ev \<Longrightarrow> skips [ev] = [] \<Longrightarrow> file_steps a b \<Longrightarrow> file_steps a (emit ev b)"
  using file_steps_emit file_steps_trans by blast

lemma process_file_work:
  assumes "process_file env cfg fh p st = (r, st')"
    and "\<not> (skip_existing cfg \<and> output_exists fh p (output_formats cfg) (fs st))"
  shows "file_steps (emit (Info_processing p) st) st'"
proof -
  let ?st1 = "emit (Info_processing p) st"
  let ?st2 = "emit (Call_load_audio p) ?st1"
  let ?st3 = "emit (Call_transcribe p) ?st2"
  have fs1: "fs ?st1 = fs st" by (simp add: emit_def)
  have s2: "file_steps ?st1 ?st2" by (simp add: file_steps_emit)
  have s3: "file_steps ?st1 ?st3" using s2 by (simp add: emit_steps)
  show ?thesis
  proof (cases "load_audio env p")
    case (Inl e)
    with assms fs1 have "st' = ?st2" by (simp add: process_file_def Let_def)
    with s2 show ?thesis by simp
  next
    case a: (Inr a)
    show ?thesis
    proof (cases "pl_transcribe env a")
      case (Inl e)
      with assms fs1 a have "st' = ?st3" by (simp add: process_file_def Let_def)
      with s3 show ?thesis by simp
    next
      case res: (Inr result)
      obtain x st4 where al:
        "(if alignment_enabled cfg then pl_align env cfg p a result ?st3 else (Inr result, ?st3))
           = (x, st4)"
        by (cases "if alignment_enabled cfg then pl_align env cfg p a result ?st3
                   else (Inr result, ?st3)")
      have "file_steps ?st3 st4"
        using al pl_align_steps [of env cfg p a result ?st3 x st4]
        by (auto simp add: file_steps_refl split: if_splits)
      with s3 have s4: "file_steps ?st1 st4" by (rule file_steps_trans)
      show ?thesis
      proof (cases x)
        case (Inl e)
        with assms fs1 a res al have "st' = st4" by (simp add: process_file_def Let_def)
        with s4 show ?thesis by simp
      next
        case r2: (Inr result2)
        obtain y st5 where di:
          "(if diarization_enabled cfg then pl_diarize env p result2 st4 else (Inr result2, st4))
             = (y, st5)"
          by (cases "if diarization_enabled cfg then pl_diarize env p result2 st4
                     else (Inr result2, st4)")
        have "file_steps st4 st5"
          using di pl_diarize_steps [of env p result2 st4 y st5]
          by (auto simp add: file_steps_refl split: if_splits)
        with s4 have s5: "file_steps ?st1 st5" by (rule file_steps_trans)
        show ?thesis
        proof (cases y)
          case (Inl e)
          with assms fs1 a res al r2 di have "st' = st5" by (simp add: process_file_def Let_def)
          with s5 show ?thesis by simp
        next
          case r3: (Inr result3)
          obtain z st6 where ex:
            "export env (output_config cfg) result3 (get_output_path fh p [])
               (output_formats cfg) (emit (Call_export p) st5) = (z, st6)"
            by (cases "export env (output_config cfg) result3 (get_output_path fh p [])
               (output_formats cfg) (emit (Call_export p) st5)")
          have "file_steps (emit (Call_export p) st5) st6"
            using ex export_loop_steps unfolding export_def by blast
          moreover have "file_steps ?st1 (emit (Call_export p) st5)"
            using s5 by (simp add: emit_steps)
          ultimately have s6: "file_steps ?st1 st6" using file_steps_trans by blast
          show ?thesis
          proof (cases z)
            case (Inl e)
            with assms fs1 a res al r2 di r3 ex have "st' = st6"
              by (simp add: process_file_def Let_def)
            with s6 show ?thesis by simp
          next
            case (Inr files)
            with assms fs1 a res al r2 di r3 ex have "st' = emit (Info_done p) st6"
              by (simp add: process_file_def Let_def)
            with s6 show ?thesis by (simp add: emit_steps)
          qed
        qed
      qed
    qed
  qed
qed


lemma process_file_step:
  assumes "process_file env cfg fh p st = (x, st1)"
  shows "\<exists>evs. trace st1 = trace st @ Info_processing p # evs \<and> list_all file_event evs \<and>
           total (stats st1) = total (stats st) \<and>
           success (stats st1) = success (stats st) \<and>
           failed (stats st1) = failed (stats st) \<and>
           skipped (stats st1) = skipped (stats st) + length (skips evs) \<and>
           length (skips evs) \<le> 1 \<and>
           (skips evs \<noteq> [] \<longrightarrow> x = None)"
proof (cases "skip_existing cfg \<and> output_exists fh p (output_formats cfg) (fs st)")
  case True
  with assms have
    "st1 = st\<lparr>trace := trace st @ [Info_processing p, Info_skipping p],
              stats := (stats st)\<lparr>skipped := skipped (stats st) + 1\<rparr>\<rparr>" and "x = None"
    by (simp_all add: process_file_def emit_def Let_def)
  then show ?thesis by simp
next
  case False
  from process_file_work [OF assms False]
  obtain evs where "stats st1 = stats st"
    "trace st1 = trace st @ Info_processing p # evs"
    "list_all file_event evs" "skips evs = []"
    by (auto simp add: file_steps_def emit_def)
  then show ?thesis by simp
qed

lemma run_loop_char:
  assumes "run_loop env cfg fh files st = (r, st')"
  shows "\<exists>evs. trace st' = trace st @ evs \<and> (\<forall>e \<in> set evs. \<not> run_level e) \<and>
           total (stats st') = total (stats st) \<and>
           skipped (stats st') = skipped (stats st) + length (skips evs) \<and>
           failed (stats st') = failed (stats st) + length (failures evs) \<and>
           success (stats st) + length (skips evs) \<le> success (stats st') \<and>
           (r = None \<longrightarrow> processed evs = files \<and>
              success (stats st') + failed (stats st') =
                success (stats st) + failed (stats st) + length files)"
  using assms
proof (induction files arbitrary: st)
  case Nil
  then show ?case by simp
next
  case (Cons p files)
  obtain x st1 where pf: "process_file env cfg fh p st = (x, st1)"
    by (cases "process_file env cfg fh p st")
  from process_file_step [OF pf]
  obtain evs1 where e1:
    "trace st1 = trace st @ Info_processing p # evs1" "list_all file_event evs1"
    "total (stats st1) = total (stats st)"
    "success (stats st1) = success (stats st)"
    "failed (stats st1) = failed (stats st)"
    "skipped (stats st1) = skipped (stats st) + length (skips evs1)"
    "length (skips evs1) \<le> 1"
    "skips evs1 \<noteq> [] \<longrightarrow> x = None"
    by blast
  have nr1: "\<forall>e \<in> set evs1. \<not> run_level e"
    using e1(2) file_event_not_run_level by (auto simp add: list_all_iff)
  have pr1: "processed evs1 = []" using e1(2) by (rule processed_file_events)
  have fl1: "failures evs1 = []" using e1(2) by (rule failures_file_events)
  show ?case
  proof (cases x)
    case None
    let ?st2 = "st1\<lparr>stats := (stats st1)\<lparr>success := success (stats st1) + 1\<rparr>\<rparr>"
    from Cons.prems pf None have "run_loop env cfg fh files ?st2 = (r, st')" by simp
    from Cons.IH [OF this]
    obtain evs where e2:
      "trace st' = trace ?st2 @ evs" "\<forall>e \<in> set evs. \<not> run_level e"
      "total (stats st') = total (stats ?st2)"
      "skipped (stats st') = skipped (stats ?st2) + length (skips evs)"
      "failed (stats st') = failed (stats ?st2) + length (failures evs)"
      "success (stats ?st2) + length (skips evs) \<le> success (stats st')"
      "r = None \<longrightarrow> processed evs = files \<and>
         success (stats st') + failed (stats st') =
           success (stats ?st2) + failed (stats ?st2) + length files"
      by blast
    let ?evs = "Info_processing p # evs1 @ evs"
    have "trace st' = trace st @ ?evs" using e1(1) e2(1) by simp
    moreover have "\<forall>e \<in> set ?evs. \<not> run_level e" using nr1 e2(2) by auto
    moreover have "skips ?evs = skips evs1 @ skips evs" by (simp add: skips_append)
    moreover have "failures ?evs = failures evs" by (simp add: failures_append fl1)
    moreover have "processed ?evs = p # processed evs" by (simp add: processed_append pr1)
    ultimately show ?thesis using e1 e2 by (intro exI [of _ ?evs]) auto
  next
    case (Some e)
    have sk1: "skips evs1 = []" using e1(8) Some by auto
    show ?thesis
    proof (cases "is_Exception e")
      case False
      with Cons.prems pf Some have "r = Some e" "st' = st1" by simp_all
      then show ?thesis
        using e1 nr1 sk1 fl1 by (intro exI [of _ "Info_processing p # evs1"]) auto
    next
      case True
      let ?st2 = "(emit (Error_processing p e) st1)
                    \<lparr>stats := (stats st1)\<lparr>failed := failed (stats st1) + 1\<rparr>\<rparr>"
      from Cons.prems pf Some True have "run_loop env cfg fh files ?st2 = (r, st')" by simp
      from Cons.IH [OF this]
      obtain evs where e2:
        "trace st' = trace ?st2 @ evs" "\<forall>e \<in> set evs. \<not> run_level e"
        "total (stats st') = total (stats ?st2)"
        "skipped (stats st') = skipped (stats ?st2) + length (skips evs)"
        "failed (stats st') = failed (stats ?st2) + length (failures evs)"
        "success (stats ?st2) + length (skips evs) \<le> success (stats st')"
        "r = None \<longrightarrow> processed evs = files \<and>
           success (stats st') + failed (stats st') =
             success (stats ?st2) + failed (stats ?st2) + length files"
        by blast
      let ?evs = "Info_processing p # evs1 @ Error_processing p e # evs"
      have "trace st' = trace st @ ?evs" using e1(1) e2(1) by (simp add: emit_def)
      moreover have "\<forall>e \<in> set ?evs. \<not> run_level e" using nr1 e2(2) by auto
      moreover have "skips ?evs = skips evs" by (simp add: skips_append sk1)
      moreover have "failures ?evs = p # failures evs" by (simp add: failures_append fl1)
      moreover have "processed ?evs = p # processed evs" by (simp add: processed_append pr1)
      ultimately show ?thesis using e1(1-7) e2 sk1
        by (intro exI [of _ ?evs]) (auto simp add: emit_def)
    qed
  qed
qed




lemma files_abc:
  "find_audio_files (FileHandler ''in'' ''out'' [''.mp3'']) [''c.mp3'', ''a.mp3'', ''notes.txt'', ''b.mp3'']
   = [\<lparr>parent = ''in'', name = ''a.mp3''\<rparr>, \<lparr>parent = ''in'', name = ''b.mp3''\<rparr>,
      \<lparr>parent = ''in'', name = ''c.mp3''\<rparr>]"
  by (simp add: find_audio_files_def FileHandler_def glob_star_def endswith_def lower_def
      char_lower_def)

lemmas example_defs =
  process_file_def faulty_env_def quiet_env_def default_settings_def Let_def
  FileHandler_def output_exists_def get_output_path_def stem_def rfind_def exists_def
  pl_transcribe_def one_segment_def pl_align_def emit_def export_def known_format_def
  export_format_def export_json_def

lemma process_a:
  "process_file (faulty_env l) (default_settings\<lparr>output_formats := [''json'']\<rparr>)
     (FileHandler ''in'' ''out'' [''.mp3'']) \<lparr>parent = ''in'', name = ''a.mp3''\<rparr> st =
   (None, st\<lparr>fs := (fs st)(\<lparr>parent = ''out'', name = ''a_transcricao..json''\<rparr> \<mapsto> ''{}''),
             trace := trace st @
               [Info_processing \<lparr>parent = ''in'', name = ''a.mp3''\<rparr>,
                Call_load_audio \<lparr>parent = ''in'', name = ''a.mp3''\<rparr>,
                Call_transcribe \<lparr>parent = ''in'', name = ''a.mp3''\<rparr>,
                Call_load_alignment_model \<lparr>parent = ''in'', name = ''a.mp3''\<rparr>,
                Call_align \<lparr>parent = ''in'', name = ''a.mp3''\<rparr>,
                Call_export \<lparr>parent = ''in'', name = ''a.mp3''\<rparr>,
                Info_exported \<lparr>parent = ''out'', name = ''a_transcricao..json''\<rparr>,
                Info_done \<lparr>parent = ''in'', name = ''a.mp3''\<rparr>]\<rparr>)"
  by (simp add: example_defs)

lemma process_b:
  "process_file (faulty_env l) (default_settings\<lparr>output_formats := [''json'']\<rparr>)
     (FileHandler ''in'' ''out'' [''.mp3'']) \<lparr>parent = ''in'', name = ''b.mp3''\<rparr> st =
   (Some (PyException ''RuntimeError''),
    st\<lparr>trace := trace st @
               [Info_processing \<lparr>parent = ''in'', name = ''b.mp3''\<rparr>,
                Call_load_audio \<lparr>parent = ''in'', name = ''b.mp3''\<rparr>,
                Call_transcribe \<lparr>parent = ''in'', name = ''b.mp3''\<rparr>]\<rparr>)"
  by (simp add: example_defs)

lemma process_c:
  "process_file (faulty_env l) (default_settings\<lparr>output_formats := [''json'']\<rparr>)
     (FileHandler ''in'' ''out'' [''.mp3'']) \<lparr>parent = ''in'', name = ''c.mp3''\<rparr> st =
   (None, st\<lparr>fs := (fs st)(\<lparr>parent = ''out'', name = ''c_transcricao..json''\<rparr> \<mapsto> ''{}''),
             trace := trace st @
               [Info_processing \<lparr>parent = ''in'', name = ''c.mp3''\<rparr>,
                Call_load_audio \<lparr>parent = ''in'', name = ''c.mp3''\<rparr>,
                Call_transcribe \<lparr>parent = ''in'', name = ''c.mp3''\<rparr>,
                Call_load_alignment_model \<lparr>parent = ''in'', name = ''c.mp3''\<rparr>,
                Call_align \<lparr>parent = ''in'', name = ''c.mp3''\<rparr>,
                Call_export \<lparr>parent = ''in'', name = ''c.mp3''\<rparr>,
                Info_exported \<lparr>parent = ''out'', name = ''c_transcricao..json''\<rparr>,
                Info_done \<lparr>parent = ''in'', name = ''c.mp3''\<rparr>]\<rparr>)"
  by (simp add: example_defs)

lemma run_abc:
  "run (faulty_env [''c.mp3'', ''a.mp3'', ''notes.txt'', ''b.mp3''])
     (default_settings\<lparr>output_formats := [''json'']\<rparr>)
     (FileHandler ''in'' ''out'' [''.mp3'']) (TranscriptionPipeline Map.empty) =
   (None,
    \<lparr>fs = [\<lparr>parent = ''out'', name = ''a_transcricao..json''\<rparr> \<mapsto> ''{}'',
            \<lparr>parent = ''out'', name = ''c_transcricao..json''\<rparr> \<mapsto> ''{}''],
     trace =
       [Call_load_whisper_model, Call_find_audio_files,
        Info_processing \<lparr>parent = ''in'', name = ''a.mp3''\<rparr>,
        Call_load_audio \<lparr>parent = ''in'', name = ''a.mp3''\<rparr>,
        Call_transcribe \<lparr>parent = ''in'', name = ''a.mp3''\<rparr>,
        Call_load_alignment_model \<lparr>parent = ''in'', name = ''a.mp3''\<rparr>,
        Call_align \<lparr>parent = ''in'', name = ''a.mp3''\<rparr>,
        Call_export \<lparr>parent = ''in'', name = ''a.mp3''\<rparr>,
        Info_exported \<lparr>parent = ''out'', name = ''a_transcricao..json''\<rparr>,
        Info_done \<lparr>parent = ''in'', name = ''a.mp3''\<rparr>,
        Info_processing \<lparr>parent = ''in'', name = ''b.mp3''\<rparr>,
        Call_load_audio \<lparr>parent = ''in'', name = ''b.mp3''\<rparr>,
        Call_transcribe \<lparr>parent = ''in'', name = ''b.mp3''\<rparr>,
        Error_processing \<lparr>parent = ''in'', name = ''b.mp3''\<rparr> (PyException ''RuntimeError''),
        Info_processing \<lparr>parent = ''in'', name = ''c.mp3''\<rparr>,
        Call_load_audio \<lparr>parent = ''in'', name = ''c.mp3''\<rparr>,
        Call_transcribe \<lparr>parent = ''in'', name = ''c.mp3''\<rparr>,
        Call_load_alignment_model \<lparr>parent = ''in'', name = ''c.mp3''\<rparr>,
        Call_align \<lparr>parent = ''in'', name = ''c.mp3''\<rparr>,
        Call_export \<lparr>parent = ''in'', name = ''c.mp3''\<rparr>,
        Info_exported \<lparr>parent = ''out'', name = ''c_transcricao..json''\<rparr>,
        Info_done \<lparr>parent = ''in'', name = ''c.mp3''\<rparr>,
        Call_cleanup,
        Print_stats \<lparr>total = 3, success = 2, failed = 1, skipped = 0\<rparr>],
     stats = \<lparr>total = 3, success = 2, failed = 1, skipped = 0\<rparr>\<rparr>)"
proof -
  have env: "listdir (faulty_env [''c.mp3'', ''a.mp3'', ''notes.txt'', ''b.mp3'']) =
               [''c.mp3'', ''a.mp3'', ''notes.txt'', ''b.mp3'']"
    "load_whisper_model (faulty_env [''c.mp3'', ''a.mp3'', ''notes.txt'', ''b.mp3'']) = None"
    "cleanup (faulty_env [''c.mp3'', ''a.mp3'', ''notes.txt'', ''b.mp3'']) = None"
    by (simp_all add: faulty_env_def quiet_env_def)
  show ?thesis
    by (simp add: run_def env files_abc process_a process_b process_c emit_def
        TranscriptionPipeline_def)
qed

lemma run_empty:
  assumes "load_whisper_model env = None" and "find_audio_files fh (listdir env) = []"
  shows "run env cfg fh st =
           (None, st\<lparr>trace := trace st @
                       [Call_load_whisper_model, Call_find_audio_files, Warn_no_files]\<rparr>)"
  using assms by (simp add: run_def emit_def Let_def)

lemma run_char:
  assumes "run env cfg fh st = (None, st')"
    and "find_audio_files fh (listdir env) \<noteq> []"
  shows "\<exists>evs. trace st' = trace st @ [Call_load_whisper_model, Call_find_audio_files] @ evs @
                    [Call_cleanup, Print_stats (stats st')] \<and>
           (\<forall>e \<in> set evs. \<not> run_level e) \<and>
           processed evs = find_audio_files fh (listdir env) \<and>
           total (stats st') = length (find_audio_files fh (listdir env)) \<and>
           skipped (stats st') = skipped (stats st) + length (skips evs) \<and>
           failed (stats st') = failed (stats st) + length (failures evs) \<and>
           success (stats st) + length (skips evs) \<le> success (stats st') \<and>
           success (stats st') + failed (stats st') =
             success (stats st) + failed (stats st) + length (find_audio_files fh (listdir env))"
proof -
  let ?files = "find_audio_files fh (listdir env)"
  let ?st2 = "emit Call_find_audio_files (emit Call_load_whisper_model st)"
  let ?st3 = "?st2\<lparr>stats := (stats ?st2)\<lparr>total := length ?files\<rparr>\<rparr>"
  from assms have lw: "load_whisper_model env = None"
    by (auto simp add: run_def Let_def split: option.splits)
  obtain r st4 where rl: "run_loop env cfg fh ?files ?st3 = (r, st4)"
    by (cases "run_loop env cfg fh ?files ?st3")
  from assms lw rl have r: "r = None"
    by (auto simp add: run_def Let_def split: option.splits)
  from assms lw rl r have cl: "cleanup env = None"
    by (auto simp add: run_def Let_def split: option.splits)
  from assms lw rl r cl have st': "st' = emit (Print_stats (stats st4)) (emit Call_cleanup st4)"
    by (simp add: run_def Let_def emit_def)
  from run_loop_char [OF rl] r
  obtain evs where e:
    "trace st4 = trace ?st3 @ evs" "\<forall>e \<in> set evs. \<not> run_level e"
    "total (stats st4) = total (stats ?st3)"
    "skipped (stats st4) = skipped (stats ?st3) + length (skips evs)"
    "failed (stats st4) = failed (stats ?st3) + length (failures evs)"
    "success (stats ?st3) + length (skips evs) \<le> success (stats st4)"
    "processed evs = ?files"
    "success (stats st4) + failed (stats st4) =
       success (stats ?st3) + failed (stats ?st3) + length ?files"
    by blast
  show ?thesis
    using e st' by (intro exI [of _ evs]) (simp add: emit_def)
qed


lemma run_loads:
  "run env cfg fh st = (None, st') \<Longrightarrow> load_whisper_model env = None"
  by (auto simp add: run_def Let_def split: option.splits)









text \<open>
  Claim C10. In a run of a new pipeline that returns, over a list of files that is not
  empty: \<open>success + failed = total\<close>, the number of files found; \<open>skipped\<close> is the number of
  files skipped, and each of them is counted in \<open>success\<close> as well, so that
  \<open>success + failed + skipped\<close> exceeds \<open>total\<close> as soon as a file is skipped.
\<close>

theorem run_stats_invariant:
  assumes "run env cfg fh (TranscriptionPipeline files) = (None, st')"
    and "find_audio_files fh (listdir env) \<noteq> []"
  shows "success (stats st') + failed (stats st') = total (stats st') \<and>
         total (stats st') = length (find_audio_files fh (listdir env)) \<and>
         skipped (stats st') = length (skips (trace st')) \<and>
         skipped (stats st') \<le> success (stats st') \<and>
         (0 < skipped (stats st') \<longrightarrow>
            total (stats st') < success (stats st') + failed (stats st') + skipped (stats st'))"
proof -
  from run_char [OF assms] obtain evs where e:
    "trace st' = trace (TranscriptionPipeline files) @
       [Call_load_whisper_model, Call_find_audio_files] @ evs @
       [Call_cleanup, Print_stats (stats st')]"
    "total (stats st') = length (find_audio_files fh (listdir env))"
    "skipped (stats st') = skipped (stats (TranscriptionPipeline files)) + length (skips evs)"
    "success (stats (TranscriptionPipeline files)) + length (skips evs) \<le> success (stats st')"
    "success (stats st') + failed (stats st') =
       success (stats (TranscriptionPipeline files)) +
       failed (stats (TranscriptionPipeline files)) +
       length (find_audio_files fh (listdir env))"
    by blast
  have "skips (trace st') = skips evs"
    using e(1) by (simp add: TranscriptionPipeline_def skips_append)
  then show ?thesis
    using e by (simp add: TranscriptionPipeline_def)
qed

text \<open>
  Claim C4, as amended. A run that returns has done one of two things. If no file was
  found, it has loaded the model, looked for the files, logged a warning and returned:
  no cleanup, no statistics. Otherwise it has loaded the model, looked for the files,
  gone through the files found in their order, then cleaned up, then printed the
  statistics; the load, the discovery, the cleanup and the statistics occur once each.
\<close>

theorem run_sequence:
  assumes "run env cfg fh st = (None, st')"
  shows "(find_audio_files fh (listdir env) = [] \<longrightarrow>
            trace st' = trace st @
              [Call_load_whisper_model, Call_find_audio_files, Warn_no_files]) \<and>
         (find_audio_files fh (listdir env) \<noteq> [] \<longrightarrow>
            (\<exists>evs. trace st' = trace st @ [Call_load_whisper_model, Call_find_audio_files] @
                       evs @ [Call_cleanup, Print_stats (stats st')] \<and>
                   (\<forall>e \<in> set evs. \<not> run_level e) \<and>
                   processed evs = find_audio_files fh (listdir env)))"
proof (cases "find_audio_files fh (listdir env) = []")
  case True
  from run_empty [OF run_loads [OF assms] True, of cfg st] assms True
  show ?thesis by auto
next
  case False
  from run_char [OF assms False] False show ?thesis by blast
qed

theorem run_sequence_witness:
  "\<exists>evs. trace (snd (run (faulty_env [''c.mp3'', ''a.mp3'', ''notes.txt'', ''b.mp3''])
            (default_settings\<lparr>output_formats := [''json'']\<rparr>)
            (FileHandler ''in'' ''out'' [''.mp3'']) (TranscriptionPipeline Map.empty)))
          = [Call_load_whisper_model, Call_find_audio_files] @ evs @
            [Call_cleanup, Print_stats \<lparr>total = 3, success = 2, failed = 1, skipped = 0\<rparr>] \<and>
          processed evs =
            [\<lparr>parent = ''in'', name = ''a.mp3''\<rparr>, \<lparr>parent = ''in'', name = ''b.mp3''\<rparr>,
             \<lparr>parent = ''in'', name = ''c.mp3''\<rparr>]"
proof -
  let ?R = "run (faulty_env [''c.mp3'', ''a.mp3'', ''notes.txt'', ''b.mp3''])
              (default_settings\<lparr>output_formats := [''json'']\<rparr>)
              (FileHandler ''in'' ''out'' [''.mp3'']) (TranscriptionPipeline Map.empty)"
  have l: "listdir (faulty_env [''c.mp3'', ''a.mp3'', ''notes.txt'', ''b.mp3'']) =
             [''c.mp3'', ''a.mp3'', ''notes.txt'', ''b.mp3'']"
    by (simp add: faulty_env_def quiet_env_def)
  obtain st' where r: "?R = (None, st')"
    and s: "stats st' = \<lparr>total = 3, success = 2, failed = 1, skipped = 0\<rparr>"
    using run_abc by simp
  from run_sequence [OF r] obtain evs where
    "trace st' = trace (TranscriptionPipeline Map.empty) @
       [Call_load_whisper_model, Call_find_audio_files] @ evs @
       [Call_cleanup, Print_stats (stats st')]"
    "processed evs =
       [\<lparr>parent = ''in'', name = ''a.mp3''\<rparr>, \<lparr>parent = ''in'', name = ''b.mp3''\<rparr>,
        \<lparr>parent = ''in'', name = ''c.mp3''\<rparr>]"
    unfolding l files_abc by auto
  then show ?thesis
    using r s by (intro exI [of _ evs]) (simp add: TranscriptionPipeline_def)
qed

text \<open>
  Claim C4, as stated, fails when no file is found: the run returns after the warning,
  and neither the cleanup nor the statistics happen.
\<close>

theorem run_empty_list_no_cleanup:
  "find_audio_files (FileHandler ''in'' ''out'' [''.mp3'']) (listdir (quiet_env [])) = [] \<and>
   run (quiet_env []) default_settings (FileHandler ''in'' ''out'' [''.mp3''])
     (TranscriptionPipeline Map.empty) =
   (None, \<lparr>fs = Map.empty,
           trace = [Call_load_whisper_model, Call_find_audio_files, Warn_no_files],
           stats = \<lparr>total = 0, success = 0, failed = 0, skipped = 0\<rparr>\<rparr>) \<and>
   Call_cleanup \<notin> set (trace (snd (run (quiet_env []) default_settings
     (FileHandler ''in'' ''out'' [''.mp3'']) (TranscriptionPipeline Map.empty))))"
  by (simp add: run_def quiet_env_def find_audio_files_def FileHandler_def glob_star_def
      TranscriptionPipeline_def emit_def)

section \<open>Examples with a skipped file\<close>


lemma files_ab:
  "find_audio_files (FileHandler ''in'' ''out'' [''.mp3'']) [''b.mp3'', ''a.mp3'']
   = [\<lparr>parent = ''in'', name = ''a.mp3''\<rparr>, \<lparr>parent = ''in'', name = ''b.mp3''\<rparr>]"
  by (simp add: find_audio_files_def FileHandler_def glob_star_def endswith_def lower_def
      char_lower_def)

lemma skip_a_exists:
  "output_exists (FileHandler ''in'' ''out'' [''.mp3'']) \<lparr>parent = ''in'', name = ''a.mp3''\<rparr>
     [''json''] [\<lparr>parent = ''out'', name = ''a_transcricao.json''\<rparr> \<mapsto> ''{}'']"
  by (simp add: example_defs)

theorem process_file_skips_witness:
  "process_file (quiet_env [''b.mp3'', ''a.mp3''])
     (default_settings\<lparr>skip_existing := True, output_formats := [''json'']\<rparr>)
     (FileHandler ''in'' ''out'' [''.mp3'']) \<lparr>parent = ''in'', name = ''a.mp3''\<rparr>
     (TranscriptionPipeline [\<lparr>parent = ''out'', name = ''a_transcricao.json''\<rparr> \<mapsto> ''{}''])
   = (None,
      \<lparr>fs = [\<lparr>parent = ''out'', name = ''a_transcricao.json''\<rparr> \<mapsto> ''{}''],
       trace = [Info_processing \<lparr>parent = ''in'', name = ''a.mp3''\<rparr>,
                Info_skipping \<lparr>parent = ''in'', name = ''a.mp3''\<rparr>],
       stats = \<lparr>total = 0, success = 0, failed = 0, skipped = 1\<rparr>\<rparr>)"
  using process_file_skips
    [of "default_settings\<lparr>skip_existing := True, output_formats := [''json'']\<rparr>"
        "FileHandler ''in'' ''out'' [''.mp3'']" "\<lparr>parent = ''in'', name = ''a.mp3''\<rparr>"
        "TranscriptionPipeline [\<lparr>parent = ''out'', name = ''a_transcricao.json''\<rparr> \<mapsto> ''{}'']"
        "quiet_env [''b.mp3'', ''a.mp3'']"]
    skip_a_exists
  by (simp add: default_settings_def TranscriptionPipeline_def)

lemma skip_run:
  "run (quiet_env [''b.mp3'', ''a.mp3''])
     (default_settings\<lparr>skip_existing := True, output_formats := [''json'']\<rparr>)
     (FileHandler ''in'' ''out'' [''.mp3''])
     (TranscriptionPipeline [\<lparr>parent = ''out'', name = ''a_transcricao.json''\<rparr> \<mapsto> ''{}''])
   = (None,
      \<lparr>fs = [\<lparr>parent = ''out'', name = ''a_transcricao.json''\<rparr> \<mapsto> ''{}'',
              \<lparr>parent = ''out'', name = ''b_transcricao..json''\<rparr> \<mapsto> ''{}''],
       trace =
         [Call_load_whisper_model, Call_find_audio_files,
          Info_processing \<lparr>parent = ''in'', name = ''a.mp3''\<rparr>,
          Info_skipping \<lparr>parent = ''in'', name = ''a.mp3''\<rparr>,
          Info_processing \<lparr>parent = ''in'', name = ''b.mp3''\<rparr>,
          Call_load_audio \<lparr>parent = ''in'', name = ''b.mp3''\<rparr>,
          Call_transcribe \<lparr>parent = ''in'', name = ''b.mp3''\<rparr>,
          Call_load_alignment_model \<lparr>parent = ''in'', name = ''b.mp3''\<rparr>,
          Call_align \<lparr>parent = ''in'', name = ''b.mp3''\<rparr>,
          Call_export \<lparr>parent = ''in'', name = ''b.mp3''\<rparr>,
          Info_exported \<lparr>parent = ''out'', name = ''b_transcricao..json''\<rparr>,
          Info_done \<lparr>parent = ''in'', name = ''b.mp3''\<rparr>,
          Call_cleanup,
          Print_stats \<lparr>total = 2, success = 2, failed = 0, skipped = 1\<rparr>],
       stats = \<lparr>total = 2, success = 2, failed = 0, skipped = 1\<rparr>\<rparr>)"
proof -
  have env: "listdir (quiet_env [''b.mp3'', ''a.mp3'']) = [''b.mp3'', ''a.mp3'']"
    "load_whisper_model (quiet_env [''b.mp3'', ''a.mp3'']) = None"
    "cleanup (quiet_env [''b.mp3'', ''a.mp3'']) = None"
    by (simp_all add: quiet_env_def)
  show ?thesis
    unfolding run_def env files_ab
    by (simp add: example_defs TranscriptionPipeline_def)
qed

theorem run_stats_invariant_witness:
  "stats (snd (run (quiet_env [''b.mp3'', ''a.mp3''])
     (default_settings\<lparr>skip_existing := True, output_formats := [''json'']\<rparr>)
     (FileHandler ''in'' ''out'' [''.mp3''])
     (TranscriptionPipeline [\<lparr>parent = ''out'', name = ''a_transcricao.json''\<rparr> \<mapsto> ''{}''])))
   = \<lparr>total = 2, success = 2, failed = 0, skipped = 1\<rparr> \<and>
   (2::nat) < 2 + 0 + 1"
proof -
  have l: "listdir (quiet_env [''b.mp3'', ''a.mp3'']) = [''b.mp3'', ''a.mp3'']"
    by (simp add: quiet_env_def)
  from run_stats_invariant [OF skip_run] show ?thesis
    unfolding l files_ab by (simp add: skip_run)
qed

section \<open>Properties of the rendering of segments\<close>


lemma dec_nat_digit: "n < 10 \<Longrightarrow> dec_nat n = [''0123456789'' ! n]"
  by (simp add: dec_nat.simps)




































section \<open>Properties of the time conversion\<close>


lemma pow2_powi: "pow2 e = 2 powi e"
  by (simp add: pow2_def power_int_def inverse_eq_divide power_one_over)

lemma pow2_pos: "0 < pow2 e"
  by (simp add: pow2_powi)

lemma pow2_add: "pow2 (a + b) = pow2 a * pow2 b"
  by (simp add: pow2_powi power_int_add)

lemma pow2_diff: "pow2 (a - b) = pow2 a / pow2 b"
  by (simp add: pow2_powi power_int_diff)

lemma pow2_less: "a < b \<Longrightarrow> pow2 a < pow2 b"
  by (simp add: pow2_powi power_int_strict_increasing)

lemma pow2_le: "a \<le> b \<Longrightarrow> pow2 a \<le> pow2 b"
  by (simp add: pow2_powi power_int_increasing)

lemma pow2_less_cancel: "pow2 a < pow2 b \<Longrightarrow> a < b"
  using pow2_le [of b a] by (cases "a < b") auto

lemma pow2_nat: "0 \<le> e \<Longrightarrow> pow2 e = 2 ^ nat e"
  by (simp add: pow2_def)

lemma pow2_of_int: "0 \<le> e \<Longrightarrow> pow2 e = of_int (2 ^ nat e)"
  by (simp add: pow2_def)

lemma binade_bounds:
  assumes "q \<noteq> 0"
  shows "pow2 (binade q) \<le> \<bar>q\<bar> \<and> \<bar>q\<bar> < pow2 (binade q + 1)"
proof -
  obtain a b where ab: "quotient_of \<bar>q\<bar> = (a, b)"
    by (cases "quotient_of \<bar>q\<bar>")
  have b: "0 < b" using quotient_of_denom_pos [OF ab] .
  have q: "\<bar>q\<bar> = of_int a / of_int b" using quotient_of_div [OF ab] .
  have a: "0 < a"
  proof -
    have "0 < \<bar>q\<bar>" using assms by simp
    then have "0 < (of_int a :: rat) / of_int b" using q by simp
    with b show ?thesis by (simp add: zero_less_divide_iff)
  qed
  let ?la = "bitlen a" and ?lb = "bitlen b"
  have la: "1 \<le> ?la" using a by (auto simp add: bitlen_alt_def)
  have lb: "1 \<le> ?lb" using b by (auto simp add: bitlen_alt_def)
  from bitlen_bounds [OF a] have
    a_lo: "pow2 (?la - 1) \<le> of_int a" and a_hi: "of_int a < pow2 ?la"
    using la by (simp_all add: pow2_of_int flip: of_int_less_iff of_int_le_iff)
  from bitlen_bounds [OF b] have
    b_lo: "pow2 (?lb - 1) \<le> of_int b" and b_hi: "of_int b < pow2 ?lb"
    using lb by (simp_all add: pow2_of_int flip: of_int_less_iff of_int_le_iff)
  have a0: "(0::rat) < of_int a" and b0: "(0::rat) < of_int b" using a b by simp_all
  have hi: "\<bar>q\<bar> < pow2 (?la - ?lb + 1)"
  proof -
    have "of_int a / of_int b < pow2 ?la / pow2 (?lb - 1)"
      using a0 a_hi b_lo pow2_pos [of "?lb - 1"] by (intro frac_less) simp_all
    also have "\<dots> = pow2 (?la - ?lb + 1)"
      using pow2_diff [of ?la "?lb - 1"] by (simp add: algebra_simps)
    finally show ?thesis using q by simp
  qed
  have lo: "pow2 (?la - ?lb - 1) \<le> \<bar>q\<bar>"
  proof -
    have "pow2 (?la - 1) / pow2 ?lb \<le> of_int a / of_int b"
      using a_lo b_hi b0 pow2_pos [of "?la - 1"] by (intro frac_le) simp_all
    moreover have "pow2 (?la - 1) / pow2 ?lb = pow2 (?la - ?lb - 1)"
      using pow2_diff [of "?la - 1" ?lb] by (simp add: algebra_simps)
    ultimately show ?thesis using q by simp
  qed
  show ?thesis
  proof (cases "pow2 (?la - ?lb) \<le> \<bar>q\<bar>")
    case True
    then have "binade q = ?la - ?lb" using ab by (simp add: binade_def)
    with True hi show ?thesis by simp
  next
    case False
    then have "binade q = ?la - ?lb - 1" using ab by (simp add: binade_def)
    with False lo show ?thesis by simp
  qed
qed

lemma binade_unique:
  assumes "pow2 e \<le> \<bar>q\<bar>" and "\<bar>q\<bar> < pow2 (e + 1)"
  shows "binade q = e"
proof -
  have "q \<noteq> 0" using assms(1) pow2_pos [of e] by auto
  from binade_bounds [OF this] have
    1: "pow2 (binade q) \<le> \<bar>q\<bar>" and 2: "\<bar>q\<bar> < pow2 (binade q + 1)" by simp_all
  have "pow2 (binade q) < pow2 (e + 1)" using 1 assms(2) by simp
  then have "binade q < e + 1" by (rule pow2_less_cancel)
  moreover have "pow2 e < pow2 (binade q + 1)" using 2 assms(1) by simp
  then have "e < binade q + 1" by (rule pow2_less_cancel)
  ultimately show ?thesis by simp
qed

lemma round_half_even_int: "round_half_even (of_int n) = n"
  by (simp add: round_half_even_def)

lemma round_half_even_nonneg: "0 \<le> q \<Longrightarrow> 0 \<le> round_half_even q"
  by (auto simp add: round_half_even_def Let_def)

lemma fl_round_nonneg:
  assumes "0 \<le> q"
  shows "0 \<le> fl_round q"
proof (cases "q = 0")
  case True
  then show ?thesis by (simp add: fl_round_def)
next
  case False
  let ?K = "max (binade q - 52) (- 1074)"
  have "0 \<le> q / pow2 ?K" using assms pow2_pos [of ?K] by simp
  then have "0 \<le> round_half_even (q / pow2 ?K)" by (rule round_half_even_nonneg)
  then have "0 \<le> of_int (round_half_even (q / pow2 ?K)) * pow2 ?K"
    using pow2_pos [of ?K] by (intro mult_nonneg_nonneg) simp_all
  with False show ?thesis by (simp add: fl_round_def Let_def)
qed

lemma fl_round_representable:
  assumes "q = of_int m * pow2 k" and "- 1074 \<le> k" and "\<bar>m\<bar> < 2 ^ 53"
  shows "fl_round q = q"
proof (cases "q = 0")
  case True
  then show ?thesis by (simp add: fl_round_def)
next
  case False
  let ?K = "max (binade q - 52) (- 1074)"
  have "\<bar>q\<bar> = of_int \<bar>m\<bar> * pow2 k"
    using assms(1) pow2_pos [of k] by (simp add: abs_mult)
  also have "\<dots> < of_int (2 ^ 53) * pow2 k"
    using assms(3) pow2_pos [of k] by (intro mult_strict_right_mono) (simp_all only: of_int_less_iff)
  also have "\<dots> = pow2 (53 + k)"
  proof -
    have "pow2 53 = of_int (2 ^ 53)" by (simp add: pow2_def)
    then show ?thesis using pow2_add [of 53 k] by simp
  qed
  finally have "\<bar>q\<bar> < pow2 (53 + k)" .
  with binade_bounds [OF False] have "pow2 (binade q) < pow2 (53 + k)" by simp
  then have "binade q < 53 + k" by (rule pow2_less_cancel)
  with assms(2) have K: "?K \<le> k" by simp
  have "q / pow2 ?K = of_int m * pow2 (k - ?K)"
    using assms(1) by (simp add: pow2_diff)
  also have "\<dots> = of_int (m * 2 ^ nat (k - ?K))"
    using K by (simp add: pow2_of_int)
  finally have "round_half_even (q / pow2 ?K) = m * 2 ^ nat (k - ?K)"
    by (simp only: round_half_even_int)
  then have "fl_round q = of_int (m * 2 ^ nat (k - ?K)) * pow2 ?K"
    using False by (simp add: fl_round_def Let_def)
  also have "\<dots> = of_int m * (pow2 (k - ?K) * pow2 ?K)"
    using K by (simp add: pow2_of_int)
  also have "pow2 (k - ?K) * pow2 ?K = pow2 k"
    using pow2_add [of "k - ?K" ?K] by simp
  finally show ?thesis using assms(1) by simp
qed

lemma fl_round_int: "\<bar>n\<bar> < 2 ^ 53 \<Longrightarrow> fl_round (of_int n) = of_int n"
  using fl_round_representable [of "of_int n" n 0] by (simp add: pow2_def)


lemma rmod_bounds:
  assumes "0 < c"
  shows "0 \<le> rmod s c" and "rmod s c < of_int c"
proof -
  define k where "k = \<lfloor>s / of_int c\<rfloor>"
  have c: "(0::rat) < of_int c" using assms by simp
  have "of_int k \<le> s / of_int c" unfolding k_def by (rule of_int_floor_le)
  then have "of_int k * of_int c \<le> s"
    using c by (simp only: pos_le_divide_eq)
  then show "0 \<le> rmod s c" unfolding rmod_def k_def [symmetric] by (simp add: mult.commute)
  have "s / of_int c < of_int k + 1" unfolding k_def by linarith
  then have "s < (of_int k + 1) * of_int c"
    using c by (simp only: pos_divide_less_eq)
  then show "rmod s c < of_int c"
    unfolding rmod_def k_def [symmetric] by (simp add: algebra_simps)
qed

lemma trunc_of_int: "trunc (of_int n) = n"
  by (simp add: trunc_def)

lemma trunc_nonneg: "0 \<le> q \<Longrightarrow> trunc q = \<lfloor>q\<rfloor>"
  by (simp add: trunc_def)

lemma float_div_mod_nonneg:
  assumes "0 \<le> s" and "s < 2 ^ 53" and "0 < c"
  shows "float_div_mod s (of_int c) = (of_int \<lfloor>s / of_int c\<rfloor>, rmod s c)"
proof -
  define k where "k = \<lfloor>s / of_int c\<rfloor>"
  have c: "(0::rat) < of_int c" using assms(3) by simp
  have k0: "0 \<le> k" unfolding k_def using assms(1) c by simp
  have tr: "trunc (s / of_int c) = k"
    unfolding k_def using assms(1) c by (intro trunc_nonneg) simp
  have rm: "rmod s c = s - of_int (k * c)"
    unfolding rmod_def k_def by (simp add: mult.commute)
  have md: "c_fmod s (of_int c) = rmod s c"
    unfolding c_fmod_def tr rm by simp
  have kc: "of_int (k * c) \<le> s"
    using rmod_bounds(1) [OF assms(3), of s] unfolding rm by simp
  have kc_ge: "0 \<le> k * c" using k0 assms(3) by simp
  have kc_lt: "k * c < 2 ^ 53"
  proof -
    have "(of_int (k * c) :: rat) < of_int (2 ^ 53)" using kc assms(2) by simp
    then show ?thesis by (simp only: of_int_less_iff)
  qed
  have kc53: "\<bar>k * c\<bar> < 2 ^ 53" using kc_ge kc_lt by simp
  have "k * 1 \<le> k * c" using k0 assms(3) by (intro mult_left_mono) simp_all
  then have k53: "\<bar>k\<bar> < 2 ^ 53" using kc_lt k0 by simp
  have sub: "s - rmod s c = of_int (k * c)" unfolding rm by simp
  have r1: "fl_round (s - rmod s c) = of_int (k * c)"
    unfolding sub using kc53 by (rule fl_round_int)
  have "of_int (k * c) / (of_int c :: rat) = of_int k" using c by simp
  then have r2: "fl_round (fl_round (s - rmod s c) / of_int c) = of_int k"
    using r1 fl_round_int [OF k53] by simp
  have adj: "(rmod s c \<noteq> 0 \<and> (((of_int c :: rat) < 0) \<noteq> (rmod s c < 0))) = False"
    using c rmod_bounds(1) [OF assms(3), of s] by auto
  have "float_div_mod s (of_int c) = (of_int k, rmod s c)"
    unfolding float_div_mod_def md Let_def r2 adj if_False
    by (simp add: fl_round_def)
  then show ?thesis unfolding k_def .
qed

lemma to_srt_time_float:
  assumes "0 \<le> s" and "s < 2 ^ 53"
  shows "to_srt_time (VFloat (Finite s)) =
           Inr (fmt_d 2 \<lfloor>s / 3600\<rfloor> @ '':'' @ fmt_d 2 \<lfloor>rmod s 3600 / 60\<rfloor> @ '':'' @
                fmt_d 2 \<lfloor>rmod s 60\<rfloor> @ '','' @ fmt_d 3 \<lfloor>fl_round (rmod s 1 * 1000)\<rfloor>)"
proof -
  have h: "float_div_mod s 3600 = (of_int \<lfloor>s / 3600\<rfloor>, rmod s 3600)"
    using float_div_mod_nonneg [OF assms, of 3600] by simp
  have m0: "0 \<le> rmod s 3600" and m1: "rmod s 3600 < 2 ^ 53"
    using rmod_bounds [of 3600 s] by simp_all
  have m: "float_div_mod (rmod s 3600) 60 =
             (of_int \<lfloor>rmod s 3600 / 60\<rfloor>, rmod (rmod s 3600) 60)"
    using float_div_mod_nonneg [OF m0 m1, of 60] by simp
  have sc: "float_div_mod s 60 = (of_int \<lfloor>s / 60\<rfloor>, rmod s 60)"
    using float_div_mod_nonneg [OF assms, of 60] by simp
  have ms: "float_div_mod s 1 = (of_int \<lfloor>s\<rfloor>, rmod s 1)"
    using float_div_mod_nonneg [OF assms, of 1] by simp
  have s0: "0 \<le> rmod s 60" using rmod_bounds(1) [of 60 s] by simp
  have f0: "0 \<le> fl_round (rmod s 1 * 1000)"
    using rmod_bounds(1) [of 1 s] by (intro fl_round_nonneg) simp
  show ?thesis
    by (simp add: to_srt_time_def h m sc ms trunc_of_int trunc_nonneg [OF s0]
        trunc_nonneg [OF f0])
qed

lemma to_srt_time_int:
  assumes "0 \<le> n"
  shows "to_srt_time (VInt n) =
           Inr (fmt_d 2 (n div 3600) @ '':'' @ fmt_d 2 (n mod 3600 div 60) @ '':'' @
                fmt_d 2 (n mod 60) @ '','' @ fmt_d 3 0)"
  by (simp add: to_srt_time_def)

lemma fl_round_eval:
  assumes "pow2 e \<le> \<bar>q\<bar>" and "\<bar>q\<bar> < pow2 (e + 1)"
  shows "fl_round q =
           of_int (round_half_even (q / pow2 (max (e - 52) (- 1074)))) *
           pow2 (max (e - 52) (- 1074))"
proof -
  have "q \<noteq> 0" using assms(1) pow2_pos [of e] by auto
  then show ?thesis
    unfolding fl_round_def binade_unique [OF assms] by (simp add: Let_def)
qed

lemma floor_rat_numeral:
  "\<lfloor>numeral a / numeral b :: rat\<rfloor> = numeral a div numeral b"
  by (metis floor_divide_of_int_eq of_int_numeral)

lemma double_75_4: "fl_round (754 / 10) = 2652901655497933 / 35184372088832"
  using fl_round_eval [of 6 "754 / 10"]
  by (simp add: pow2_def round_half_even_def Let_def floor_rat_numeral)

lemma double_3661_005: "fl_round (3661005 / 1000) = 4025317566846075 / 1099511627776"
  using fl_round_eval [of 11 "3661005 / 1000"]
  by (simp add: pow2_def round_half_even_def Let_def floor_rat_numeral)


lemma r_75_4: "rmod (2652901655497933 / 35184372088832) 1 * 1000 =
             1759218604441625 / 4398046511104"
  by (simp add: rmod_def floor_rat_numeral)

lemma f_75_4: "fl_round (1759218604441625 / 4398046511104) = 1759218604441625 / 4398046511104"
  using fl_round_eval [of 8 "1759218604441625 / 4398046511104"]
  by (simp add: pow2_def round_half_even_def Let_def floor_rat_numeral)

lemma fields_75_4:
  "\<lfloor>(2652901655497933 / 35184372088832 :: rat) / 3600\<rfloor> = 0"
  "\<lfloor>rmod (2652901655497933 / 35184372088832) 3600 / 60\<rfloor> = 1"
  "\<lfloor>rmod (2652901655497933 / 35184372088832) 60\<rfloor> = 15"
  "\<lfloor>(1759218604441625 / 4398046511104 :: rat)\<rfloor> = 400"
  by (simp_all add: rmod_def floor_rat_numeral)


lemma fmt_examples:
  "fmt_d 2 0 = ''00''" "fmt_d 2 1 = ''01''" "fmt_d 2 15 = ''15''"
  "fmt_d 3 400 = ''400''" "fmt_d 3 5 = ''005''"
proof -
  have d15: "dec_nat 15 = ''15''"
    by (subst dec_nat.simps) (simp add: dec_nat_digit)
  have d400: "dec_nat 400 = ''400''"
    by (subst dec_nat.simps, subst dec_nat.simps) (simp add: dec_nat_digit)
  show "fmt_d 2 0 = ''00''" "fmt_d 2 1 = ''01''" "fmt_d 3 5 = ''005''"
    by (simp_all add: fmt_d_def zfill_def dec_nat_digit numeral_2_eq_2 numeral_3_eq_3)
  show "fmt_d 2 15 = ''15''" by (simp add: fmt_d_def zfill_def d15)
  show "fmt_d 3 400 = ''400''" by (simp add: fmt_d_def zfill_def d400)
qed


lemma r_3661: "rmod (4025317566846075 / 1099511627776) 1 * 1000 =
             687194767375 / 137438953472"
  by (simp add: rmod_def floor_rat_numeral)

lemma f_3661: "fl_round (687194767375 / 137438953472) = 687194767375 / 137438953472"
  using fl_round_eval [of 2 "687194767375 / 137438953472"]
  by (simp add: pow2_def round_half_even_def Let_def floor_rat_numeral)

lemma fields_3661:
  "\<lfloor>(4025317566846075 / 1099511627776 :: rat) / 3600\<rfloor> = 1"
  "\<lfloor>rmod (4025317566846075 / 1099511627776) 3600 / 60\<rfloor> = 1"
  "\<lfloor>rmod (4025317566846075 / 1099511627776) 60\<rfloor> = 1"
  "\<lfloor>(687194767375 / 137438953472 :: rat)\<rfloor> = 5"
  by (simp_all add: rmod_def floor_rat_numeral)

lemma round_half_even_floor: "\<lfloor>q\<rfloor> \<le> round_half_even q"
  by (simp add: round_half_even_def Let_def)

lemma round_half_even_ceiling: "round_half_even q \<le> \<lceil>q\<rceil>"
proof -
  have "\<lfloor>q\<rfloor> \<le> \<lceil>q\<rceil>" by linarith
  moreover have "q - of_int \<lfloor>q\<rfloor> \<noteq> 0 \<Longrightarrow> \<lfloor>q\<rfloor> + 1 \<le> \<lceil>q\<rceil>" by linarith
  ultimately show ?thesis
    by (auto simp add: round_half_even_def Let_def)
qed

lemma binade_le_52:
  assumes "0 < x" and "x < 2 ^ 53"
  shows "binade x \<le> 52"
proof -
  have "x \<noteq> 0" using assms(1) by simp
  from binade_bounds [OF this] assms have "pow2 (binade x) < 2 ^ 53" by simp
  moreover have "pow2 53 = 2 ^ 53" by (simp add: pow2_def)
  ultimately have "pow2 (binade x) < pow2 53" by simp
  then have "binade x < 53" by (rule pow2_less_cancel)
  then show ?thesis by simp
qed

lemma fl_round_between:
  assumes "0 < x" and "x < 2 ^ 53" and "of_int n \<le> x" and "x \<le> of_int m"
  shows "of_int n \<le> fl_round x" and "fl_round x \<le> of_int m"
proof -
  define K where "K = max (binade x - 52) (- 1074)"
  have K: "K \<le> 0" unfolding K_def using binade_le_52 [OF assms(1,2)] by simp
  define j where "j = nat (- K)"
  have p: "pow2 K = 1 / 2 ^ j"
    using K unfolding j_def pow2_def by (cases "K = 0") auto
  have fl: "fl_round x = of_int (round_half_even (x / pow2 K)) * pow2 K"
    using assms(1) unfolding fl_round_def K_def by (simp add: Let_def)
  have y: "x / pow2 K = x * 2 ^ j" by (simp add: p)
  have "of_int (n * 2 ^ j) \<le> x * 2 ^ j" using assms(3) by simp
  then have "n * 2 ^ j \<le> \<lfloor>x * 2 ^ j\<rfloor>" by (simp only: le_floor_iff)
  also have "\<dots> \<le> round_half_even (x * 2 ^ j)" by (rule round_half_even_floor)
  finally have "(of_int (n * 2 ^ j) :: rat) \<le> of_int (round_half_even (x * 2 ^ j))"
    by (simp only: of_int_le_iff)
  then have "of_int (n * 2 ^ j) * (1 / 2 ^ j) \<le>
             (of_int (round_half_even (x * 2 ^ j)) :: rat) * (1 / 2 ^ j)"
    by (intro mult_right_mono) simp_all
  then show "of_int n \<le> fl_round x" unfolding fl y p by simp
  have "x * 2 ^ j \<le> of_int (m * 2 ^ j)" using assms(4) by simp
  then have "\<lceil>x * 2 ^ j\<rceil> \<le> m * 2 ^ j" by (simp only: ceiling_le_iff)
  with round_half_even_ceiling [of "x * 2 ^ j"]
  have "round_half_even (x * 2 ^ j) \<le> m * 2 ^ j" by simp
  then have "(of_int (round_half_even (x * 2 ^ j)) :: rat) \<le> of_int (m * 2 ^ j)"
    by (simp only: of_int_le_iff)
  then have "(of_int (round_half_even (x * 2 ^ j)) :: rat) * (1 / 2 ^ j) \<le>
             of_int (m * 2 ^ j) * (1 / 2 ^ j)"
    by (intro mult_right_mono) simp_all
  then show "fl_round x \<le> of_int m" unfolding fl y p by simp
qed

lemma floor_fl_round:
  assumes "0 \<le> x" and "x < 2 ^ 53"
  shows "\<lfloor>fl_round x\<rfloor> = \<lfloor>x\<rfloor> \<or> \<lfloor>fl_round x\<rfloor> = \<lfloor>x\<rfloor> + 1"
proof (cases "x = 0")
  case True
  then show ?thesis by (simp add: fl_round_def)
next
  case False
  with assms(1) have pos: "0 < x" by simp
  have lo: "of_int \<lfloor>x\<rfloor> \<le> x" by simp
  have hi: "x \<le> of_int (\<lfloor>x\<rfloor> + 1)" by linarith
  from fl_round_between [OF pos assms(2) lo hi]
  have "of_int \<lfloor>x\<rfloor> \<le> fl_round x" and "fl_round x \<le> of_int (\<lfloor>x\<rfloor> + 1)" .
  then have "\<lfloor>x\<rfloor> \<le> \<lfloor>fl_round x\<rfloor>" and "\<lfloor>fl_round x\<rfloor> \<le> \<lfloor>x\<rfloor> + 1"
    by (simp_all add: le_floor_iff floor_le_iff)
  then show ?thesis by linarith
qed


lemma double_1e22: "fl_round 10000000000000000000000 = 10000000000000000000000"
  using fl_round_eval [of 73 "10000000000000000000000"]
  by (simp add: pow2_def round_half_even_def Let_def floor_rat_numeral)

lemma float_div_mod_1e22:
  "float_div_mod 10000000000000000000000 3600 = (2777777777777777664, 2800)"
proof -
  have m: "c_fmod 10000000000000000000000 3600 = 2800"
    by (simp add: c_fmod_def trunc_def floor_rat_numeral)
  have s: "fl_round (10000000000000000000000 - 2800) = 10000000000000000000000"
    using fl_round_eval [of 73 "10000000000000000000000 - 2800"]
    by (simp add: pow2_def round_half_even_def Let_def floor_rat_numeral)
  have d: "fl_round (10000000000000000000000 / 3600) = 2777777777777777664"
    using fl_round_eval [of 61 "10000000000000000000000 / 3600"]
    by (simp add: pow2_def round_half_even_def Let_def floor_rat_numeral)
  show ?thesis
    unfolding float_div_mod_def m Let_def s d
    by (simp add: fl_round_def)
qed

lemma double_0_009: "fl_round (9 / 1000) = 5188146770730811 / 576460752303423488"
  using fl_round_eval [of "- 7" "9 / 1000"]
  by (simp add: pow2_def round_half_even_def Let_def floor_rat_numeral)

lemma r_0_009: "rmod (5188146770730811 / 576460752303423488) 1 * 1000 =
                  648518346341351375 / 72057594037927936"
  by (simp add: rmod_def floor_rat_numeral)

lemma f_0_009: "fl_round (648518346341351375 / 72057594037927936) = 9"
  using fl_round_eval [of 3 "648518346341351375 / 72057594037927936"]
  by (simp add: pow2_def round_half_even_def Let_def floor_rat_numeral)

lemma fields_0_009:
  "\<lfloor>(5188146770730811 / 576460752303423488 :: rat) / 3600\<rfloor> = 0"
  "\<lfloor>rmod (5188146770730811 / 576460752303423488) 3600 / 60\<rfloor> = 0"
  "\<lfloor>rmod (5188146770730811 / 576460752303423488) 60\<rfloor> = 0"
  "\<lfloor>(648518346341351375 / 72057594037927936 :: rat)\<rfloor> = 8"
  by (simp_all add: rmod_def floor_rat_numeral)

lemma fmt_009: "fmt_d 3 9 = ''009''"
  by (simp add: fmt_d_def zfill_def dec_nat_digit numeral_3_eq_3)

text \<open>
  Claim C6, as stated, fails in two places. The input \<open>0.009\<close> is the double
  \<open>5188146770730811 / 2^59\<close>; the exact \<open>(s % 1) * 1000\<close> is just below 9, with floor 8, while
  the double product is 9 and the milliseconds are rendered as \<open>009\<close>. The input \<open>1e22\<close> is
  a double; its \<open>floor(s / 3600)\<close> is 2777777777777777777, while \<open>int(s // 3600)\<close> is
  2777777777777777664.
\<close>

theorem to_srt_time_not_exact:
  "fl_round (9 / 1000) = 5188146770730811 / 576460752303423488 \<and>
   to_srt_time (VFloat (Finite (5188146770730811 / 576460752303423488))) =
     Inr ''00:00:00,009'' \<and>
   \<lfloor>rmod (5188146770730811 / 576460752303423488) 1 * 1000\<rfloor> = 8 \<and>
   fl_round 10000000000000000000000 = 10000000000000000000000 \<and>
   num_int (num_floordiv (NFloat (Finite 10000000000000000000000)) 3600) =
     Inr 2777777777777777664 \<and>
   \<lfloor>(10000000000000000000000 :: rat) / 3600\<rfloor> = 2777777777777777777"
proof -
  have h: "0 \<le> (5188146770730811 / 576460752303423488 :: rat)"
    "(5188146770730811 / 576460752303423488 :: rat) < 2 ^ 53"
    by simp_all
  have a: "to_srt_time (VFloat (Finite (5188146770730811 / 576460752303423488))) =
             Inr ''00:00:00,009''"
    unfolding to_srt_time_float [OF h] r_0_009 f_0_009 fields_0_009 fmt_examples
    by (simp add: fmt_009)
  have b: "\<lfloor>rmod (5188146770730811 / 576460752303423488) 1 * 1000\<rfloor> = 8"
    unfolding r_0_009 by (rule fields_0_009(4))
  have c: "num_int (num_floordiv (NFloat (Finite 10000000000000000000000)) 3600) =
             Inr 2777777777777777664"
    using float_div_mod_1e22 by (simp add: trunc_def)
  have d: "\<lfloor>(10000000000000000000000 :: rat) / 3600\<rfloor> = 2777777777777777777"
    by (simp add: floor_rat_numeral)
  show ?thesis
    using double_0_009 a b double_1e22 c d by (intro conjI)
qed

text \<open>
  Claim C6, as amended. For a finite \<open>float\<close> \<open>s\<close> with \<open>0 \<le> s < 2^53\<close>, the double
  arithmetic of \<open>_to_srt_time\<close> gives exactly the hours \<open>floor(s / 3600)\<close>, the minutes
  \<open>floor((s % 3600) / 60)\<close> and the seconds \<open>floor(s % 60)\<close>; the milliseconds are the floor
  of the product \<open>(s % 1) * 1000\<close> as the double multiplication rounds it, which is
  \<open>floor((s % 1) * 1000)\<close> or one more. For an \<open>int\<close> \<open>n \<ge> 0\<close> the fields are the integer
  quotients and the milliseconds are 0. The fields are padded with zeros to two digits,
  the milliseconds to three. The inputs \<open>75.4\<close> and \<open>3661.005\<close>, read as the nearest
  doubles, give \<open>00:01:15,400\<close> and \<open>01:01:01,005\<close>.
\<close>

theorem to_srt_time_fields:
  "(0 \<le> s \<and> s < 2 ^ 53 \<longrightarrow>
      to_srt_time (VFloat (Finite s)) =
        Inr (fmt_d 2 \<lfloor>s / 3600\<rfloor> @ '':'' @ fmt_d 2 \<lfloor>rmod s 3600 / 60\<rfloor> @ '':'' @
             fmt_d 2 \<lfloor>rmod s 60\<rfloor> @ '','' @ fmt_d 3 \<lfloor>fl_round (rmod s 1 * 1000)\<rfloor>) \<and>
      (\<lfloor>fl_round (rmod s 1 * 1000)\<rfloor> = \<lfloor>rmod s 1 * 1000\<rfloor> \<or>
       \<lfloor>fl_round (rmod s 1 * 1000)\<rfloor> = \<lfloor>rmod s 1 * 1000\<rfloor> + 1)) \<and>
   (0 \<le> n \<longrightarrow>
      to_srt_time (VInt n) =
        Inr (fmt_d 2 (n div 3600) @ '':'' @ fmt_d 2 (n mod 3600 div 60) @ '':'' @
             fmt_d 2 (n mod 60) @ '','' @ fmt_d 3 0))"
proof -
  have p: "0 \<le> rmod s 1 * 1000" "rmod s 1 * 1000 < 2 ^ 53"
    using rmod_bounds [of 1 s] by simp_all
  from floor_fl_round [OF p] to_srt_time_float [of s] to_srt_time_int [of n]
  show ?thesis by blast
qed

theorem to_srt_time_fields_witness:
  "to_srt_time (VFloat (Finite (fl_round (754 / 10)))) = Inr ''00:01:15,400'' \<and>
   to_srt_time (VFloat (Finite (fl_round (3661005 / 1000)))) = Inr ''01:01:01,005''"
proof -
  have h1: "0 \<le> (2652901655497933 / 35184372088832 :: rat) \<and>
            (2652901655497933 / 35184372088832 :: rat) < 2 ^ 53"
    by simp
  have h2: "0 \<le> (4025317566846075 / 1099511627776 :: rat) \<and>
            (4025317566846075 / 1099511627776 :: rat) < 2 ^ 53"
    by simp
  note a = to_srt_time_fields
    [where s = "2652901655497933 / 35184372088832", THEN conjunct1, THEN mp, OF h1,
      THEN conjunct1]
  note b = to_srt_time_fields
    [where s = "4025317566846075 / 1099511627776", THEN conjunct1, THEN mp, OF h2,
      THEN conjunct1]
  have a': "to_srt_time (VFloat (Finite (2652901655497933 / 35184372088832))) =
              Inr ''00:01:15,400''"
    unfolding a r_75_4 f_75_4 fields_75_4 fmt_examples by simp
  have b': "to_srt_time (VFloat (Finite (4025317566846075 / 1099511627776))) =
              Inr ''01:01:01,005''"
    unfolding b r_3661 f_3661 fields_3661 fmt_examples by simp
  show ?thesis
    unfolding double_75_4 double_3661_005 using a' b' by (rule conjI)
qed

end
